theory Spec2Isabelle
  imports Complex_Main
begin

section \<open>Hourly energy balance of a regional grid: embedding of the Python sources\<close>

text \<open>
  The development embeds the two simulation scripts of the repository:
  \<^item> \<^verbatim>\<open>optimization.py\<close>: \<^verbatim>\<open>ensure_8760\<close>, \<^verbatim>\<open>calc_energy_production\<close>,
    \<^verbatim>\<open>calc_all\<close>, \<^verbatim>\<open>optimization_function\<close> and the search bounds;
  \<^item> the analysis script (\<^verbatim>\<open>ANALYSIS BASED.py\<close>): \<^verbatim>\<open>ensure_8760\<close>,
    \<^verbatim>\<open>calculate_energy_production\<close> and \<^verbatim>\<open>simulate_energy_balance\<close>.

  The third script, \<^verbatim>\<open>partb.py\<close>, builds a network for an external power-flow solver and
  contains no function of its own; it is not modelled.

  Python floats are modelled as the real numbers they approximate; every comparison and
  every branch of the source is kept. A one-dimensional NumPy array is a list; an
  exception of the source is the left summand of a result.
\<close>

subsection \<open>Exceptions and NumPy values\<close>

datatype error = ValueError | IndexError | TypeError

text \<open>
  A NumPy operand is either a scalar or a one-dimensional array. \<^verbatim>\<open>len\<close> of a scalar
  raises \<^verbatim>\<open>TypeError\<close>.
\<close>

datatype ndarray = Scalar real | Array "real list"

fun np_len :: "ndarray \<Rightarrow> error + nat" where
  "np_len (Scalar x) = Inl TypeError"
| "np_len (Array xs) = Inr (length xs)"

text \<open>
  Elementwise arithmetic of two one-dimensional arrays: equal shapes combine pointwise, a
  shape \<open>(1,)\<close> operand is broadcast, any other pair of shapes raises \<^verbatim>\<open>ValueError\<close>.
\<close>

definition np_binop :: "(real \<Rightarrow> real \<Rightarrow> real) \<Rightarrow> real list \<Rightarrow> real list \<Rightarrow> error + real list" where
  "np_binop f xs ys =
     (if length xs = length ys then Inr (map2 f xs ys)
      else if length xs = 1 then Inr (map (f (hd xs)) ys)
      else if length ys = 1 then Inr (map (\<lambda>x. f x (hd ys)) xs)
      else Inl ValueError)"

fun np_add :: "ndarray \<Rightarrow> ndarray \<Rightarrow> error + ndarray" where
  "np_add (Scalar a) (Scalar b) = Inr (Scalar (a + b))"
| "np_add (Scalar a) (Array ys) = Inr (Array (map (\<lambda>y. a + y) ys))"
| "np_add (Array xs) (Scalar b) = Inr (Array (map (\<lambda>x. x + b) xs))"
| "np_add (Array xs) (Array ys) =
     (case np_binop (+) xs ys of Inl e \<Rightarrow> Inl e | Inr zs \<Rightarrow> Inr (Array zs))"

text \<open>\<^verbatim>\<open>a[h]\<close> for a non-negative index: out of range raises \<^verbatim>\<open>IndexError\<close>.\<close>

definition getitem :: "'a list \<Rightarrow> nat \<Rightarrow> error + 'a" where
  "getitem xs h = (if h < length xs then Inr (xs ! h) else Inl IndexError)"

fun np_getitem :: "ndarray \<Rightarrow> nat \<Rightarrow> error + real" where
  "np_getitem (Scalar x) h = Inl IndexError"
| "np_getitem (Array xs) h = getitem xs h"

text \<open>Sequencing of fallible steps: the first exception ends the computation.\<close>

definition bind :: "error + 'a \<Rightarrow> ('a \<Rightarrow> error + 'b) \<Rightarrow> error + 'b" where
  "bind m f = (case m of Inl e \<Rightarrow> Inl e | Inr x \<Rightarrow> f x)"

text \<open>\<^verbatim>\<open>for h in hs: s = body(h, s)\<close>, stopping at the first exception.\<close>

fun for_range :: "nat list \<Rightarrow> (nat \<Rightarrow> 's \<Rightarrow> error + 's) \<Rightarrow> 's \<Rightarrow> error + 's" where
  "for_range [] body s = Inr s"
| "for_range (h # hs) body s = bind (body h s) (for_range hs body)"

subsection \<open>The time-series normalizer\<close>

definition HOURS_PER_YEAR :: nat where
  "HOURS_PER_YEAR = 8760"

text \<open>
  \<^verbatim>\<open>np.pad(data, (0, n), 'edge')\<close> on a one-dimensional array appends \<open>n\<close> copies of the
  last sample. NumPy refuses to extend an empty axis in this mode (\<^verbatim>\<open>ValueError\<close>).
\<close>

definition np_pad_edge :: "'a list \<Rightarrow> nat \<Rightarrow> error + 'a list" where
  "np_pad_edge data n =
     (if data = [] \<and> 0 < n then Inl ValueError else Inr (data @ replicate n (last data)))"

text \<open>
  \<^verbatim>\<open>
  def ensure_8760(data):
      if len(data) > 8760:
          return data[:8760]
      elif len(data) < 8760:
          return np.pad(data, (0, 8760 - len(data)), 'edge')
      return data
  \<close>
\<close>

definition ensure_8760 :: "'a list \<Rightarrow> error + 'a list" where
  "ensure_8760 data =
     (if length data > HOURS_PER_YEAR then Inr (take HOURS_PER_YEAR data)
      else if length data < HOURS_PER_YEAR then np_pad_edge data (HOURS_PER_YEAR - length data)
      else Inr data)"

subsection \<open>Constants shared by both scripts\<close>

definition total_population :: real where
  "total_population = 2938200"

definition investment_per_capita :: real where
  "investment_per_capita = 3000"

definition total_investment :: real where
  "total_investment = total_population * investment_per_capita"

definition cost_wind :: real where
  "cost_wind = 6.5 * 10 ^ 6"

definition cost_panels :: real where
  "cost_panels = 600"

definition cost_smr :: real where
  "cost_smr = 250 * 10 ^ 6"

definition cost_storage_kwh :: real where
  "cost_storage_kwh = 100"

subsection \<open>\<^verbatim>\<open>optimization.py\<close>\<close>

definition area :: real where
  "area = 3832.2"

definition hydro_power_per_km2 :: real where
  "hydro_power_per_km2 = 20"

definition storage_efficiency :: real where
  "storage_efficiency = 0.85"

definition initial_storage_fraction :: real where
  "initial_storage_fraction = 0.5"

definition hydro_capacity :: real where
  "hydro_capacity = area * hydro_power_per_km2"

text \<open>
  The module-level series, read from files that are not part of the repository. The
  script passes each of them through \<^verbatim>\<open>ensure_8760\<close> before anything else uses it.
\<close>

record dataset =
  irradiation :: "real list"
  wind_speed :: "real list"
  wind_power :: "real list"
  hourly_demand :: "real list"

definition load_dataset :: "real list \<Rightarrow> real list \<Rightarrow> real list \<Rightarrow> real list \<Rightarrow> error + dataset" where
  "load_dataset raw_irradiation raw_demand raw_wind_speed raw_wind_power =
     bind (ensure_8760 raw_irradiation) (\<lambda>irr.
     bind (ensure_8760 raw_wind_speed) (\<lambda>ws.
     bind (ensure_8760 raw_wind_power) (\<lambda>wp.
     bind (ensure_8760 raw_demand) (\<lambda>dem.
       Inr \<lparr>irradiation = irr, wind_speed = ws, wind_power = wp, hourly_demand = dem\<rparr>))))"

text \<open>
  \<^verbatim>\<open>
  def calc_energy_production(Nmills, Npanels, NSMR):
      wind_production = Nmills * wind_power
      solar_irradiance = irradiation / 1000
      solar_production = Npanels * solar_irradiance * 0.55 * 2.8 * 0.197
      nuclear_production = NSMR * 50 * 1000
      hydro_production = np.full(8760, hydro_capacity)
      return wind_production, solar_production, nuclear_production, hydro_production
  \<close>
  The nuclear component is a product of numbers, not an array.
\<close>

definition calc_energy_production ::
  "dataset \<Rightarrow> real \<Rightarrow> real \<Rightarrow> real \<Rightarrow> ndarray \<times> ndarray \<times> ndarray \<times> ndarray" where
  "calc_energy_production ds Nmills Npanels NSMR =
     (let wind_production = Array (map (\<lambda>w. Nmills * w) (wind_power ds));
          solar_irradiance = map (\<lambda>x. x / 1000) (irradiation ds);
          solar_production = Array (map (\<lambda>x. Npanels * x * 0.55 * 2.8 * 0.197) solar_irradiance);
          nuclear_production = Scalar (NSMR * 50 * 1000);
          hydro_production = Array (replicate HOURS_PER_YEAR hydro_capacity)
      in (wind_production, solar_production, nuclear_production, hydro_production))"

text \<open>The first statement of \<^verbatim>\<open>calc_all\<close>: the value the simulation uses as storage capacity.\<close>

definition storage_kwh :: "real \<Rightarrow> real \<Rightarrow> real \<Rightarrow> real" where
  "storage_kwh Nmills Npanels NSMR =
     total_investment - (Nmills * cost_wind + Npanels * cost_panels + NSMR * cost_smr)"

text \<open>
  The body of the hourly loop of \<^verbatim>\<open>calc_all\<close>. The state is
  \<open>(storage, gas_consumption, storage_values)\<close>; \<open>gas_consumption\<close> is one running total.
  \<^verbatim>\<open>
  surplus = total_production[h] - hourly_demand[h]
  if surplus > 0:
      storage = min(storage + surplus * storage_efficiency, storage_kwh)
  else:
      deficit = -surplus
      if storage >= deficit:
          storage -= deficit
      else:
          gas_consumption += (deficit - storage)
          storage = 0
  storage_values.append(storage)
  \<close>
\<close>

definition calc_all_hour ::
  "real \<Rightarrow> ndarray \<Rightarrow> real list \<Rightarrow> nat \<Rightarrow> real \<times> real \<times> real list \<Rightarrow> error + real \<times> real \<times> real list" where
  "calc_all_hour capacity total_production demand h st =
     (case st of (storage, gas_consumption, storage_values) \<Rightarrow>
        bind (np_getitem total_production h) (\<lambda>p.
        bind (getitem demand h) (\<lambda>d.
          let surplus = p - d in
          if surplus > 0 then
            (let storage' = min (storage + surplus * storage_efficiency) capacity
             in Inr (storage', gas_consumption, storage_values @ [storage']))
          else
            (let deficit = - surplus in
             if storage \<ge> deficit then
               (let storage' = storage - deficit
                in Inr (storage', gas_consumption, storage_values @ [storage']))
             else Inr (0, gas_consumption + (deficit - storage), storage_values @ [0])))))"

text \<open>The loop of \<^verbatim>\<open>calc_all\<close> with its initialisation, for a given capacity and initial level.\<close>

definition calc_all_loop ::
  "real \<Rightarrow> real \<Rightarrow> ndarray \<Rightarrow> real list \<Rightarrow> error + real \<times> real \<times> real list" where
  "calc_all_loop capacity storage total_production demand =
     for_range [0..<HOURS_PER_YEAR] (calc_all_hour capacity total_production demand) (storage, 0, [])"

definition sentinel :: real where
  "sentinel = 10 ^ 30"

definition calc_all :: "dataset \<Rightarrow> real \<Rightarrow> real \<Rightarrow> real \<Rightarrow> error + real \<times> real list \<times> ndarray" where
  "calc_all ds Nmills Npanels NSMR =
     (let capacity = storage_kwh Nmills Npanels NSMR in
      if capacity > 0 then
        (let storage = capacity * initial_storage_fraction in
         case calc_energy_production ds Nmills Npanels NSMR of (wind, solar, nuclear, hydro) \<Rightarrow>
           bind (np_add wind solar) (\<lambda>ws.
           bind (np_add ws nuclear) (\<lambda>wsn.
           bind (np_add wsn hydro) (\<lambda>total_production.
           bind (calc_all_loop capacity storage total_production (hourly_demand ds))
             (\<lambda>(storage', gas_consumption, storage_values).
                Inr (gas_consumption, storage_values, total_production))))))
      else Inr (sentinel, [], Array []))"

text \<open>
  \<^verbatim>\<open>
  def optimization_function(params):
      Nmills, Npanels, NSMR = params
      return calc_all(Nmills, Npanels, NSMR)[0]
  \<close>
  Unpacking anything but three values raises \<^verbatim>\<open>ValueError\<close>.
\<close>

fun optimization_function :: "dataset \<Rightarrow> real list \<Rightarrow> error + real" where
  "optimization_function ds [Nmills, Npanels, NSMR] =
     bind (calc_all ds Nmills Npanels NSMR) (\<lambda>(gas_consumption, storage_values, total_production).
       Inr gas_consumption)"
| "optimization_function ds params = Inl ValueError"

text \<open>The search bounds: \<^verbatim>\<open>(0, total_investment // cost)\<close> for each of the three counts.\<close>

definition bounds :: "(real \<times> real) list" where
  "bounds =
     [(0, of_int \<lfloor>total_investment / cost_wind\<rfloor>),
      (0, of_int \<lfloor>total_investment / cost_panels\<rfloor>),
      (0, of_int \<lfloor>total_investment / cost_smr\<rfloor>)]"

definition in_bounds :: "real list \<Rightarrow> bool" where
  "in_bounds params = list_all2 (\<lambda>x (lo, hi). lo \<le> x \<and> x \<le> hi) params bounds"

subsection \<open>The analysis script\<close>

definition wind_turbines :: real where
  "wind_turbines = 625"

definition solar_panels :: real where
  "solar_panels = 4759059"

definition nuclear_smrs :: real where
  "nuclear_smrs = 5"

definition nuclear_production :: "real list" where
  "nuclear_production = replicate HOURS_PER_YEAR 244382.352845001"

definition hydro_capacity_series :: "real list" where
  "hydro_capacity_series = replicate HOURS_PER_YEAR 76644.0"

text \<open>
  \<^verbatim>\<open>
  def calculate_energy_production(wind_power, irradiation):
      wind_energy = np.full(HOURS_PER_YEAR, wind_turbines) * wind_power[:HOURS_PER_YEAR]
      solar_energy = np.full(HOURS_PER_YEAR, solar_panels) * irradiation[:HOURS_PER_YEAR] * 0.55 * 2.8 * 0.197
      nuclear_energy = np.copy(nuclear_production)
      hydro_energy = np.copy(hydro_capacity)
      total_production = wind_energy + solar_energy + nuclear_energy + hydro_energy
      return total_production, wind_energy, solar_energy, nuclear_energy, hydro_energy
  \<close>
\<close>

definition calculate_energy_production ::
  "real list \<Rightarrow> real list \<Rightarrow> error + real list \<times> real list \<times> real list \<times> real list \<times> real list" where
  "calculate_energy_production wind_pwr irr =
     bind (np_binop (*) (replicate HOURS_PER_YEAR wind_turbines) (take HOURS_PER_YEAR wind_pwr)) (\<lambda>wind_energy.
     bind (np_binop (*) (replicate HOURS_PER_YEAR solar_panels) (take HOURS_PER_YEAR irr)) (\<lambda>sp.
       let solar_energy = map (\<lambda>x. x * 0.55 * 2.8 * 0.197) sp;
           nuclear_energy = nuclear_production;
           hydro_energy = hydro_capacity_series
       in bind (np_binop (+) wind_energy solar_energy) (\<lambda>ws.
          bind (np_binop (+) ws nuclear_energy) (\<lambda>wsn.
          bind (np_binop (+) wsn hydro_energy) (\<lambda>total_production.
            Inr (total_production, wind_energy, solar_energy, nuclear_energy, hydro_energy))))))"

text \<open>
  The body of the hourly loop of \<^verbatim>\<open>simulate_energy_balance\<close>. The state is
  \<open>(storage, gas_consumption, storage_values)\<close>; \<open>gas_consumption\<close> is an array with one
  entry per hour, initially all zero.
  \<^verbatim>\<open>
  surplus = total_production[h] - hourly_demand[h]
  if surplus > 0:
      storage = min(storage + surplus * 0.85, storage_capacity)
  else:
      deficit = -surplus
      if storage >= deficit:
          storage -= deficit
      else:
          remaining_deficit = deficit - storage
          storage = 0
          gas_consumption[h] = max(0, remaining_deficit)
  storage_values.append(storage)
  \<close>
\<close>

definition simulate_hour ::
  "real \<Rightarrow> real list \<Rightarrow> real list \<Rightarrow> nat \<Rightarrow> real \<times> real list \<times> real list
     \<Rightarrow> error + real \<times> real list \<times> real list" where
  "simulate_hour storage_capacity total_production demand h st =
     (case st of (storage, gas_consumption, storage_values) \<Rightarrow>
        bind (getitem total_production h) (\<lambda>p.
        bind (getitem demand h) (\<lambda>d.
          let surplus = p - d in
          if surplus > 0 then
            (let storage' = min (storage + surplus * 0.85) storage_capacity
             in Inr (storage', gas_consumption, storage_values @ [storage']))
          else
            (let deficit = - surplus in
             if storage \<ge> deficit then
               (let storage' = storage - deficit
                in Inr (storage', gas_consumption, storage_values @ [storage']))
             else
               (let remaining_deficit = deficit - storage in
                if h < length gas_consumption then
                  Inr (0, gas_consumption[h := max 0 remaining_deficit], storage_values @ [0])
                else Inl IndexError)))))"

text \<open>The loop of \<^verbatim>\<open>simulate_energy_balance\<close> with its initialisation and its return.\<close>

definition simulate_loop ::
  "real \<Rightarrow> real \<Rightarrow> real list \<Rightarrow> real list \<Rightarrow> error + real list \<times> real list" where
  "simulate_loop storage_capacity storage total_production demand =
     bind (for_range [0..<HOURS_PER_YEAR] (simulate_hour storage_capacity total_production demand)
             (storage, replicate HOURS_PER_YEAR 0, []))
       (\<lambda>(storage', gas_consumption, storage_values). Inr (gas_consumption, storage_values))"

definition storage_capacity :: real where
  "storage_capacity =
     (total_investment - (wind_turbines * cost_wind + solar_panels * cost_panels + nuclear_smrs * cost_smr))
       / cost_storage_kwh"

definition simulate_energy_balance :: "real list \<Rightarrow> real list \<Rightarrow> error + real list \<times> real list" where
  "simulate_energy_balance total_production demand =
     simulate_loop storage_capacity (storage_capacity * 0.5) total_production demand"

subsection \<open>The transition rule as the specification words it\<close>

text \<open>
  From the previous level \<open>s\<close>, the production and the demand of the hour, the new level
  and the backup energy of the hour: with \<open>net = production - demand\<close>, a surplus charges
  the storage at efficiency 0.85 up to the capacity; a deficit \<open>d = - net\<close> is served from
  storage when \<open>s \<ge> d\<close>, and otherwise empties it and leaves \<open>d - s\<close> to the backup.
\<close>

definition spec_transition :: "real \<Rightarrow> real \<Rightarrow> real \<Rightarrow> real \<Rightarrow> real \<times> real" where
  "spec_transition cap s production demand =
     (let net = production - demand in
      if net > 0 then (min (s + net * 0.85) cap, 0)
      else (let d = - net in if s \<ge> d then (s - d, 0) else (0, d - s)))"

text \<open>The level before hour \<open>h\<close> of a recorded trace: the initial level, or the previous entry.\<close>

definition level_before :: "real \<Rightarrow> real list \<Rightarrow> nat \<Rightarrow> real" where
  "level_before s0 storage_values h = (if h = 0 then s0 else storage_values ! (h - 1))"

subsection \<open>The total production of a mix\<close>

text \<open>
  The value of \<^verbatim>\<open>wind + solar + nuclear + hydro\<close> in \<^verbatim>\<open>calc_all\<close> when the two
  curves have one sample per hour, written out as one list.
\<close>

definition total_of :: "dataset \<Rightarrow> real \<Rightarrow> real \<Rightarrow> real \<Rightarrow> real list" where
  "total_of ds Nmills Npanels NSMR =
     map2 (+) (map (\<lambda>x. x + NSMR * 50 * 1000)
                 (map2 (+) (map (\<lambda>w. Nmills * w) (wind_power ds))
                           (map (\<lambda>x. Npanels * x * 0.55 * 2.8 * 0.197) (map (\<lambda>x. x / 1000) (irradiation ds)))))
              (replicate HOURS_PER_YEAR hydro_capacity)"

subsection \<open>Example inputs\<close>

text \<open>A data set whose curves and demand are flat over the year, used to instantiate the results.\<close>

definition flat_dataset :: "real \<Rightarrow> real \<Rightarrow> real \<Rightarrow> dataset" where
  "flat_dataset w i d =
     \<lparr>irradiation = replicate HOURS_PER_YEAR i, wind_speed = replicate HOURS_PER_YEAR 0,
      wind_power = replicate HOURS_PER_YEAR w, hourly_demand = replicate HOURS_PER_YEAR d\<rparr>"

section \<open>Auxiliary results\<close>

subsection \<open>Sequencing and loops\<close>

lemma bind_Inr [simp]: "bind (Inr x) f = f x"
  by (simp add: bind_def)

lemma bind_Inl [simp]: "bind (Inl e) f = Inl e"
  by (simp add: bind_def)

lemma for_range_append:
  "for_range (xs @ ys) body s = bind (for_range xs body s) (for_range ys body)"
proof (induction xs arbitrary: s)
  case Nil
  show ?case by simp
next
  case (Cons h hs)
  show ?case
    by (cases "body h s") (simp_all add: Cons.IH)
qed

lemma for_range_snoc:
  "for_range (hs @ [h]) body s = bind (for_range hs body s) (body h)"
proof -
  have "for_range [h] body = body h"
    by (rule ext) (simp add: bind_def split: sum.splits)
  then show ?thesis
    by (simp add: for_range_append)
qed

subsection \<open>One hour, and the trace of a run\<close>

text \<open>
  Both loop bodies compute the transition of the specification; a run over the first \<open>n\<close>
  hours records, hour by hour, the level that transition gives from the level before.
\<close>

lemma level_before_snoc:
  "h \<le> length vs \<Longrightarrow> level_before s0 (vs @ [x]) h = level_before s0 vs h"
  by (cases h) (simp_all add: level_before_def nth_append)

lemma calc_all_hour_spec:
  assumes "h < length tp" "h < length dem"
  shows "calc_all_hour cap (Array tp) dem h (s, g, vs) =
           Inr (fst (spec_transition cap s (tp ! h) (dem ! h)),
                g + snd (spec_transition cap s (tp ! h) (dem ! h)),
                vs @ [fst (spec_transition cap s (tp ! h) (dem ! h))])"
  using assms
  by (simp add: calc_all_hour_def getitem_def spec_transition_def storage_efficiency_def Let_def)

lemma simulate_hour_spec:
  assumes "h < length tp" "h < length dem" "h < length gas" "gas ! h = 0"
  shows "simulate_hour cap tp dem h (s, gas, vs) =
           Inr (fst (spec_transition cap s (tp ! h) (dem ! h)),
                gas[h := snd (spec_transition cap s (tp ! h) (dem ! h))],
                vs @ [fst (spec_transition cap s (tp ! h) (dem ! h))])"
proof -
  from assms(4) have "gas[h := 0] = gas"
    by (metis list_update_id)
  with assms(1-3) show ?thesis
    by (simp add: simulate_hour_def getitem_def spec_transition_def Let_def)
qed

lemma spec_transition_bounds:
  assumes "0 \<le> s" "s \<le> cap"
  shows "0 \<le> fst (spec_transition cap s p d) \<and> fst (spec_transition cap s p d) \<le> cap"
  using assms by (auto simp: spec_transition_def Let_def min_def)

lemma spec_transition_backup:
  "0 \<le> snd (spec_transition cap s p d)
     \<and> (0 < snd (spec_transition cap s p d) \<longrightarrow> fst (spec_transition cap s p d) = 0)"
  by (auto simp: spec_transition_def Let_def)


lemma calc_all_prefix:
  assumes "n \<le> length tp" "n \<le> length dem"
  shows "\<exists>s g vs. for_range [0..<n] (calc_all_hour cap (Array tp) dem) (s0, 0, []) = Inr (s, g, vs)
           \<and> length vs = n \<and> s = level_before s0 vs n
           \<and> (\<forall>h<n. vs ! h = fst (spec_transition cap (level_before s0 vs h) (tp ! h) (dem ! h)))
           \<and> g = (\<Sum>h<n. snd (spec_transition cap (level_before s0 vs h) (tp ! h) (dem ! h)))"
  using assms
proof (induction n)
  case 0
  show ?case by (simp add: level_before_def)
next
  case (Suc n)
  then obtain s g vs where run: "for_range [0..<n] (calc_all_hour cap (Array tp) dem) (s0, 0, []) = Inr (s, g, vs)"
    and len: "length vs = n" and s: "s = level_before s0 vs n"
    and tr: "\<forall>h<n. vs ! h = fst (spec_transition cap (level_before s0 vs h) (tp ! h) (dem ! h))"
    and g: "g = (\<Sum>h<n. snd (spec_transition cap (level_before s0 vs h) (tp ! h) (dem ! h)))"
    by auto
  define s' where "s' = fst (spec_transition cap s (tp ! n) (dem ! n))"
  define b where "b = snd (spec_transition cap s (tp ! n) (dem ! n))"
  define vs' where "vs' = vs @ [s']"
  have lb: "level_before s0 vs' h = level_before s0 vs h" if "h \<le> n" for h
    using that len by (simp add: vs'_def level_before_snoc)
  have step: "for_range [0..<Suc n] (calc_all_hour cap (Array tp) dem) (s0, 0, []) = Inr (s', g + b, vs')"
    using Suc.prems run by (simp add: for_range_snoc calc_all_hour_spec s'_def b_def vs'_def)
  have last: "vs' ! n = s'"
    unfolding vs'_def len [symmetric] by simp
  have "length vs' = Suc n"
    by (simp add: vs'_def len)
  moreover have "s' = level_before s0 vs' (Suc n)"
    using last by (simp add: level_before_def)
  moreover have "vs' ! h = fst (spec_transition cap (level_before s0 vs' h) (tp ! h) (dem ! h))" if "h < Suc n" for h
  proof (cases "h = n")
    case True
    then show ?thesis
      using last s lb [of n] by (simp add: s'_def)
  next
    case False
    with that have "h < n" by simp
    then show ?thesis
      using tr len lb [of h] by (simp add: vs'_def nth_append)
  qed
  moreover have "g + b = (\<Sum>h<Suc n. snd (spec_transition cap (level_before s0 vs' h) (tp ! h) (dem ! h)))"
    using g s lb by (simp add: b_def)
  ultimately show ?case
    using step by blast
qed


lemma simulate_prefix:
  assumes "n \<le> length tp" "n \<le> length dem" "n \<le> N"
  shows "\<exists>s gas vs. for_range [0..<n] (simulate_hour cap tp dem) (s0, replicate N 0, []) = Inr (s, gas, vs)
           \<and> length vs = n \<and> s = level_before s0 vs n \<and> length gas = N
           \<and> (\<forall>h<n. vs ! h = fst (spec_transition cap (level_before s0 vs h) (tp ! h) (dem ! h)))
           \<and> (\<forall>h<n. gas ! h = snd (spec_transition cap (level_before s0 vs h) (tp ! h) (dem ! h)))
           \<and> (\<forall>h. n \<le> h \<and> h < N \<longrightarrow> gas ! h = 0)"
  using assms
proof (induction n)
  case 0
  show ?case by (simp add: level_before_def)
next
  case (Suc n)
  then obtain s gas vs where run: "for_range [0..<n] (simulate_hour cap tp dem) (s0, replicate N 0, []) = Inr (s, gas, vs)"
    and len: "length vs = n" and s: "s = level_before s0 vs n" and lg: "length gas = N"
    and tr: "\<forall>h<n. vs ! h = fst (spec_transition cap (level_before s0 vs h) (tp ! h) (dem ! h))"
    and g: "\<forall>h<n. gas ! h = snd (spec_transition cap (level_before s0 vs h) (tp ! h) (dem ! h))"
    and z: "\<forall>h. n \<le> h \<and> h < N \<longrightarrow> gas ! h = 0"
    by auto
  define s' where "s' = fst (spec_transition cap s (tp ! n) (dem ! n))"
  define b where "b = snd (spec_transition cap s (tp ! n) (dem ! n))"
  define vs' where "vs' = vs @ [s']"
  define gas' where "gas' = gas[n := b]"
  have lb: "level_before s0 vs' h = level_before s0 vs h" if "h \<le> n" for h
    using that len by (simp add: vs'_def level_before_snoc)
  have "n < length gas" "gas ! n = 0"
    using Suc.prems lg z by auto
  then have step: "for_range [0..<Suc n] (simulate_hour cap tp dem) (s0, replicate N 0, []) = Inr (s', gas', vs')"
    using Suc.prems run
    by (simp add: for_range_snoc simulate_hour_spec s'_def b_def vs'_def gas'_def)
  have last: "vs' ! n = s'"
    unfolding vs'_def len [symmetric] by simp
  have "length vs' = Suc n"
    by (simp add: vs'_def len)
  moreover have "s' = level_before s0 vs' (Suc n)"
    using last by (simp add: level_before_def)
  moreover have "length gas' = N"
    by (simp add: gas'_def lg)
  moreover have "vs' ! h = fst (spec_transition cap (level_before s0 vs' h) (tp ! h) (dem ! h))" if "h < Suc n" for h
  proof (cases "h = n")
    case True
    then show ?thesis
      using last s lb [of n] by (simp add: s'_def)
  next
    case False
    with that have "h < n" by simp
    then show ?thesis
      using tr len lb [of h] by (simp add: vs'_def nth_append)
  qed
  moreover have "gas' ! h = snd (spec_transition cap (level_before s0 vs' h) (tp ! h) (dem ! h))" if "h < Suc n" for h
  proof (cases "h = n")
    case True
    then show ?thesis
      using \<open>n < length gas\<close> s lb [of n] by (simp add: gas'_def b_def)
  next
    case False
    with that have "h < n" by simp
    then show ?thesis
      using g lb [of h] by (simp add: gas'_def)
  qed
  moreover have "gas' ! h = 0" if "Suc n \<le> h \<and> h < N" for h
    using that z by (simp add: gas'_def)
  ultimately show ?case
    using step by blast
qed

lemma trace_bounds:
  assumes tr: "\<forall>h<n. vs ! h = fst (spec_transition cap (level_before s0 vs h) (tp ! h) (dem ! h))"
    and s0: "0 \<le> s0" "s0 \<le> cap"
  shows "h < n \<Longrightarrow> 0 \<le> vs ! h \<and> vs ! h \<le> cap"
proof (induction h)
  case 0
  with tr have "vs ! 0 = fst (spec_transition cap s0 (tp ! 0) (dem ! 0))"
    by (simp add: level_before_def)
  then show ?case
    using spec_transition_bounds [OF s0] by simp
next
  case (Suc h)
  then have prev: "0 \<le> vs ! h" "vs ! h \<le> cap"
    by simp_all
  from tr Suc.prems have "vs ! Suc h = fst (spec_transition cap (vs ! h) (tp ! Suc h) (dem ! Suc h))"
    by (simp add: level_before_def)
  then show ?case
    using spec_transition_bounds [OF prev] by simp
qed

subsection \<open>A run of \<^verbatim>\<open>calc_all\<close> and of \<^verbatim>\<open>simulate_energy_balance\<close>\<close>

lemma np_add_arrays:
  "length xs = length ys \<Longrightarrow> np_add (Array xs) (Array ys) = Inr (Array (map2 (+) xs ys))"
  by (simp add: np_binop_def)

lemma length_total_of:
  "length (wind_power ds) = HOURS_PER_YEAR \<Longrightarrow> length (irradiation ds) = HOURS_PER_YEAR
     \<Longrightarrow> length (total_of ds a b c) = HOURS_PER_YEAR"
  by (simp add: total_of_def)

lemma calc_all_feasible:
  assumes "length (wind_power ds) = HOURS_PER_YEAR" "length (irradiation ds) = HOURS_PER_YEAR"
    and "0 < storage_kwh a b c"
  shows "calc_all ds a b c =
           bind (calc_all_loop (storage_kwh a b c) (storage_kwh a b c * initial_storage_fraction)
                   (Array (total_of ds a b c)) (hourly_demand ds))
             (\<lambda>(s, g, vs). Inr (g, vs, Array (total_of ds a b c)))"
proof -
  let ?wind = "map (\<lambda>w. a * w) (wind_power ds)"
  let ?solar = "map (\<lambda>x. b * x * 0.55 * 2.8 * 0.197) (map (\<lambda>x. x / 1000) (irradiation ds))"
  let ?ws = "map2 (+) ?wind ?solar"
  let ?wsn = "map (\<lambda>x. x + c * 50 * 1000) ?ws"
  let ?hydro = "replicate HOURS_PER_YEAR hydro_capacity"
  have 1: "np_add (Array ?wind) (Array ?solar) = Inr (Array ?ws)"
    using assms(1,2) by (intro np_add_arrays) simp
  have 2: "np_add (Array ?ws) (Scalar (c * 50 * 1000)) = Inr (Array ?wsn)"
    by (simp only: np_add.simps)
  have 3: "np_add (Array ?wsn) (Array ?hydro) = Inr (Array (total_of ds a b c))"
    unfolding total_of_def using assms(1,2) by (intro np_add_arrays) simp
  show ?thesis
    unfolding calc_all_def calc_energy_production_def Let_def
    using assms(3) by (simp only: 1 2 3 bind_Inr if_True prod.case)
qed

lemma calc_all_infeasible:
  "storage_kwh a b c \<le> 0 \<Longrightarrow> calc_all ds a b c = Inr (sentinel, [], Array [])"
  by (simp add: calc_all_def Let_def)

lemma calc_all_loop_run:
  assumes "HOURS_PER_YEAR \<le> length tp" "HOURS_PER_YEAR \<le> length dem"
  shows "\<exists>s g vs. calc_all_loop cap s0 (Array tp) dem = Inr (s, g, vs)
           \<and> length vs = HOURS_PER_YEAR
           \<and> (\<forall>h<HOURS_PER_YEAR. vs ! h = fst (spec_transition cap (level_before s0 vs h) (tp ! h) (dem ! h)))
           \<and> g = (\<Sum>h<HOURS_PER_YEAR. snd (spec_transition cap (level_before s0 vs h) (tp ! h) (dem ! h)))"
  unfolding calc_all_loop_def using calc_all_prefix [OF assms, of cap s0] by blast

lemma simulate_loop_run:
  assumes "HOURS_PER_YEAR \<le> length tp" "HOURS_PER_YEAR \<le> length dem"
  shows "\<exists>gas vs. simulate_loop cap s0 tp dem = Inr (gas, vs)
           \<and> length vs = HOURS_PER_YEAR \<and> length gas = HOURS_PER_YEAR
           \<and> (\<forall>h<HOURS_PER_YEAR. vs ! h = fst (spec_transition cap (level_before s0 vs h) (tp ! h) (dem ! h)))
           \<and> (\<forall>h<HOURS_PER_YEAR. gas ! h = snd (spec_transition cap (level_before s0 vs h) (tp ! h) (dem ! h)))"
proof -
  from simulate_prefix [OF assms order_refl, of cap s0]
  obtain s gas vs where run: "for_range [0..<HOURS_PER_YEAR] (simulate_hour cap tp dem)
        (s0, replicate HOURS_PER_YEAR 0, []) = Inr (s, gas, vs)"
    and rest: "length vs = HOURS_PER_YEAR" "length gas = HOURS_PER_YEAR"
      "\<forall>h<HOURS_PER_YEAR. vs ! h = fst (spec_transition cap (level_before s0 vs h) (tp ! h) (dem ! h))"
      "\<forall>h<HOURS_PER_YEAR. gas ! h = snd (spec_transition cap (level_before s0 vs h) (tp ! h) (dem ! h))"
    by blast
  have "simulate_loop cap s0 tp dem = Inr (gas, vs)"
    by (simp add: simulate_loop_def run)
  with rest show ?thesis by blast
qed

lemma calc_all_run:
  assumes "length (wind_power ds) = HOURS_PER_YEAR" "length (irradiation ds) = HOURS_PER_YEAR"
    and "length (hourly_demand ds) = HOURS_PER_YEAR" and "0 < storage_kwh a b c"
  shows "\<exists>g vs. calc_all ds a b c = Inr (g, vs, Array (total_of ds a b c))
           \<and> length vs = HOURS_PER_YEAR
           \<and> (\<forall>h<HOURS_PER_YEAR. vs ! h =
                 fst (spec_transition (storage_kwh a b c)
                        (level_before (storage_kwh a b c * initial_storage_fraction) vs h)
                        (total_of ds a b c ! h) (hourly_demand ds ! h)))
           \<and> g = (\<Sum>h<HOURS_PER_YEAR.
                 snd (spec_transition (storage_kwh a b c)
                        (level_before (storage_kwh a b c * initial_storage_fraction) vs h)
                        (total_of ds a b c ! h) (hourly_demand ds ! h)))"
proof -
  have "HOURS_PER_YEAR \<le> length (total_of ds a b c)" "HOURS_PER_YEAR \<le> length (hourly_demand ds)"
    using assms by (simp_all add: length_total_of)
  from calc_all_loop_run [OF this, of "storage_kwh a b c" "storage_kwh a b c * initial_storage_fraction"]
  obtain s g vs where run: "calc_all_loop (storage_kwh a b c) (storage_kwh a b c * initial_storage_fraction)
        (Array (total_of ds a b c)) (hourly_demand ds) = Inr (s, g, vs)"
    and rest: "length vs = HOURS_PER_YEAR"
      "\<forall>h<HOURS_PER_YEAR. vs ! h =
                 fst (spec_transition (storage_kwh a b c)
                        (level_before (storage_kwh a b c * initial_storage_fraction) vs h)
                        (total_of ds a b c ! h) (hourly_demand ds ! h))"
      "g = (\<Sum>h<HOURS_PER_YEAR.
                 snd (spec_transition (storage_kwh a b c)
                        (level_before (storage_kwh a b c * initial_storage_fraction) vs h)
                        (total_of ds a b c ! h) (hourly_demand ds ! h)))"
    by blast
  have "calc_all ds a b c = Inr (g, vs, Array (total_of ds a b c))"
    using assms by (simp add: calc_all_feasible run)
  with rest show ?thesis by blast
qed

subsection \<open>Values of the constants and of the total production\<close>

lemma storage_capacity_value: "storage_capacity = 6466646"
  by (simp add: storage_capacity_def total_investment_def total_population_def investment_per_capita_def
      wind_turbines_def cost_wind_def solar_panels_def cost_panels_def nuclear_smrs_def cost_smr_def
      cost_storage_kwh_def)

lemma total_investment_value: "total_investment = 8814600000"
  by (simp add: total_investment_def total_population_def investment_per_capita_def)

lemma hydro_capacity_value: "hydro_capacity = 76644"
  by (simp add: hydro_capacity_def area_def hydro_power_per_km2_def)

lemma total_of_nth:
  assumes "length (wind_power ds) = HOURS_PER_YEAR" "length (irradiation ds) = HOURS_PER_YEAR"
    and "h < HOURS_PER_YEAR"
  shows "total_of ds a b c ! h =
           a * (wind_power ds ! h) + b * (irradiation ds ! h / 1000) * 0.55 * 2.8 * 0.197
             + c * 50 * 1000 + hydro_capacity"
  using assms by (simp add: total_of_def)

lemma flat_dataset_simps [simp]:
  "irradiation (flat_dataset w i d) = replicate HOURS_PER_YEAR i"
  "wind_power (flat_dataset w i d) = replicate HOURS_PER_YEAR w"
  "hourly_demand (flat_dataset w i d) = replicate HOURS_PER_YEAR d"
  by (simp_all add: flat_dataset_def)

lemma storage_kwh_zero: "storage_kwh 0 0 0 = 8814600000"
  by (simp add: storage_kwh_def total_investment_value)

lemma calc_all_hour_gas:
  assumes "calc_all_hour cap series d h (storage, g, vals) = Inr (storage', g', vals')"
  shows "g \<le> g' \<and> (g < g' \<longrightarrow> storage' = 0)"
proof (cases series)
  case (Scalar x)
  with assms show ?thesis
    by (simp add: calc_all_hour_def)
next
  case (Array tp)
  with assms show ?thesis
    by (auto simp: calc_all_hour_def getitem_def Let_def split: if_splits)
qed

lemma sum_backup_nonneg:
  "0 \<le> (\<Sum>h<n. snd (spec_transition cap (f h) (p h) (d h)))"
  by (rule sum_nonneg) (simp add: spec_transition_backup)

lemma witness_inputs:
  "length (wind_power (flat_dataset 0 0 0)) = HOURS_PER_YEAR"
  "length (irradiation (flat_dataset 0 0 0)) = HOURS_PER_YEAR"
  "length (hourly_demand (flat_dataset 0 0 0)) = HOURS_PER_YEAR"
  "0 < storage_kwh 0 0 0"
  "HOURS_PER_YEAR \<le> length (replicate HOURS_PER_YEAR (500::real))"
  "HOURS_PER_YEAR \<le> length (replicate HOURS_PER_YEAR (900::real))"
  by (simp_all add: storage_kwh_zero)

subsection \<open>Runs on flat series\<close>

lemma flat_stays_empty:
  assumes tr: "\<forall>h<n. vs ! h = fst (spec_transition cap (level_before s0 vs h) p d)"
    and def: "p < d" and k: "vs ! k = 0"
  shows "k \<le> h \<Longrightarrow> h < n \<Longrightarrow> vs ! h = 0"
proof (induction h rule: dec_induct)
  case base
  show ?case by (rule k)
next
  case (step h)
  then have "vs ! h = 0" by simp
  moreover from tr step.prems
  have "vs ! Suc h = fst (spec_transition cap (vs ! h) p d)"
    by (simp add: level_before_def)
  ultimately show ?case
    using def by (simp add: spec_transition_def)
qed

lemma sum_flat_tail:
  fixes f :: "nat \<Rightarrow> real"
  assumes "k \<le> n" and "\<And>h. k \<le> h \<Longrightarrow> h < n \<Longrightarrow> f h = c"
  shows "(\<Sum>h<n. f h) = (\<Sum>h<k. f h) + of_nat (n - k) * c"
  using assms
proof (induction n rule: dec_induct)
  case base
  show ?case by simp
next
  case (step n)
  then have "(\<Sum>h<n. f h) = (\<Sum>h<k. f h) + of_nat (n - k) * c" "f n = c"
    by simp_all
  with step.hyps show ?case
    by (simp add: Suc_diff_le algebra_simps)
qed

lemma hours_gt_2: "2 < HOURS_PER_YEAR"
  by (simp add: HOURS_PER_YEAR_def)

lemma deficit_scenario_trace:
  assumes tr: "\<forall>h<HOURS_PER_YEAR. vs ! h = fst (spec_transition 1000 (level_before 500 vs h) 500 900)"
  shows "vs ! 0 = 100" "vs ! 1 = 0" "1 \<le> h \<Longrightarrow> h < HOURS_PER_YEAR \<Longrightarrow> vs ! h = 0"
proof -
  from tr hours_gt_2 have "vs ! 0 = fst (spec_transition 1000 500 500 900)"
    by (simp add: level_before_def)
  then show v0: "vs ! 0 = 100"
    by (simp add: spec_transition_def)
  from tr hours_gt_2 have "vs ! 1 = fst (spec_transition 1000 (vs ! 0) 500 900)"
    by (simp add: level_before_def)
  with v0 show v1: "vs ! 1 = 0"
    by (simp add: spec_transition_def)
  show "vs ! h = 0" if "1 \<le> h" "h < HOURS_PER_YEAR"
    using flat_stays_empty [OF tr _ v1 that] by simp
qed

lemma deficit_scenario_backup:
  assumes tr: "\<forall>h<HOURS_PER_YEAR. vs ! h = fst (spec_transition 1000 (level_before 500 vs h) 500 900)"
  shows "snd (spec_transition 1000 (level_before 500 vs 0) 500 900) = 0"
    "snd (spec_transition 1000 (level_before 500 vs 1) 500 900) = 300"
    "2 \<le> h \<Longrightarrow> h < HOURS_PER_YEAR \<Longrightarrow> snd (spec_transition 1000 (level_before 500 vs h) 500 900) = 400"
proof -
  show "snd (spec_transition 1000 (level_before 500 vs 0) 500 900) = 0"
    by (simp add: level_before_def spec_transition_def)
  show "snd (spec_transition 1000 (level_before 500 vs 1) 500 900) = 300"
    using deficit_scenario_trace(1) [OF tr] by (simp add: level_before_def spec_transition_def)
  show "snd (spec_transition 1000 (level_before 500 vs h) 500 900) = 400" if "2 \<le> h" "h < HOURS_PER_YEAR"
  proof -
    from that have "1 \<le> h - 1" "h - 1 < HOURS_PER_YEAR" "h \<noteq> 0"
      by simp_all
    then have "level_before 500 vs h = 0"
      using deficit_scenario_trace(3) [OF tr] by (simp add: level_before_def)
    then show ?thesis
      by (simp add: spec_transition_def)
  qed
qed

subsection \<open>The backup energy against the demand\<close>

lemma spec_transition_backup_le:
  assumes "0 \<le> s" "0 \<le> p"
  shows "snd (spec_transition cap s p d) \<le> max 0 d"
  using assms by (auto simp: spec_transition_def Let_def)

lemma level_before_nonneg:
  assumes tr: "\<forall>h<n. vs ! h = fst (spec_transition cap (level_before s0 vs h) (tp ! h) (dem ! h))"
    and s0: "0 \<le> s0" "s0 \<le> cap" and h: "h < n"
  shows "0 \<le> level_before s0 vs h"
proof (cases h)
  case 0
  with s0 show ?thesis by (simp add: level_before_def)
next
  case (Suc k)
  with h have "k < n" by simp
  from trace_bounds [OF tr s0 this] Suc show ?thesis
    by (simp add: level_before_def)
qed

lemma total_of_nonneg:
  assumes len: "length (wind_power ds) = HOURS_PER_YEAR" "length (irradiation ds) = HOURS_PER_YEAR"
    and w: "\<forall>x\<in>set (wind_power ds). 0 \<le> x" and i: "\<forall>x\<in>set (irradiation ds). 0 \<le> x"
    and mix: "0 \<le> a" "0 \<le> b" "0 \<le> c" and h: "h < HOURS_PER_YEAR"
  shows "0 \<le> total_of ds a b c ! h"
proof -
  have "0 \<le> wind_power ds ! h" "0 \<le> irradiation ds ! h"
    using len w i h by simp_all
  with mix have "0 \<le> a * (wind_power ds ! h)" "0 \<le> b * (irradiation ds ! h / 1000) * 0.55 * 2.8 * 0.197"
    "0 \<le> c * 50 * 1000"
    by simp_all
  then show ?thesis
    by (simp add: total_of_nth [OF len h] hydro_capacity_value)
qed

lemma sum_list_map_nth:
  fixes f :: "'a \<Rightarrow> real"
  shows "sum_list (map f xs) = (\<Sum>h<length xs. f (xs ! h))"
proof -
  have "sum_list (map f xs) = (\<Sum>h = 0..<length (map f xs). map f xs ! h)"
    by (rule sum_list_sum_nth)
  also have "\<dots> = (\<Sum>h<length xs. f (xs ! h))"
    by (simp add: atLeast0LessThan)
  finally show ?thesis .
qed

lemma in_bounds_nonneg:
  "in_bounds [a, b, c] \<Longrightarrow> 0 \<le> a \<and> 0 \<le> b \<and> 0 \<le> c"
  by (simp add: in_bounds_def bounds_def)

lemma bounds_value: "bounds = [(0, 1356), (0, 14691000), (0, 35)]"
  by (simp add: bounds_def total_investment_value cost_wind_def cost_panels_def cost_smr_def)

lemma gas_below_demand:
  assumes len: "length (wind_power ds) = HOURS_PER_YEAR" "length (irradiation ds) = HOURS_PER_YEAR"
      "length (hourly_demand ds) = HOURS_PER_YEAR"
    and w: "\<forall>x\<in>set (wind_power ds). 0 \<le> x" and i: "\<forall>x\<in>set (irradiation ds). 0 \<le> x"
    and mix: "0 \<le> a" "0 \<le> b" "0 \<le> c" and cap: "0 < storage_kwh a b c"
  shows "\<exists>g vs tp. calc_all ds a b c = Inr (g, vs, tp) \<and> g \<le> sum_list (map (max 0) (hourly_demand ds))"
proof -
  let ?cap = "storage_kwh a b c"
  let ?s0 = "?cap * initial_storage_fraction"
  from calc_all_run [OF len cap] obtain g vs
    where run: "calc_all ds a b c = Inr (g, vs, Array (total_of ds a b c))"
      and tr: "\<forall>h<HOURS_PER_YEAR. vs ! h =
                 fst (spec_transition ?cap (level_before ?s0 vs h)
                        (total_of ds a b c ! h) (hourly_demand ds ! h))"
      and g: "g = (\<Sum>h<HOURS_PER_YEAR.
                 snd (spec_transition ?cap (level_before ?s0 vs h)
                        (total_of ds a b c ! h) (hourly_demand ds ! h)))"
    by blast
  have s0: "0 \<le> ?s0" "?s0 \<le> ?cap"
    using cap by (simp_all add: initial_storage_fraction_def)
  have "g \<le> (\<Sum>h<HOURS_PER_YEAR. max 0 (hourly_demand ds ! h))"
    unfolding g
  proof (rule sum_mono)
    fix h assume "h \<in> {..<HOURS_PER_YEAR}"
    then have h: "h < HOURS_PER_YEAR" by simp
    show "snd (spec_transition ?cap (level_before ?s0 vs h) (total_of ds a b c ! h) (hourly_demand ds ! h))
            \<le> max 0 (hourly_demand ds ! h)"
      using level_before_nonneg [OF tr s0 h] total_of_nonneg [OF len(1,2) w i mix h]
      by (rule spec_transition_backup_le)
  qed
  also have "\<dots> = sum_list (map (max 0) (hourly_demand ds))"
    by (simp add: sum_list_map_nth len)
  finally show ?thesis
    using run by blast
qed

lemma optimization_function_infeasible:
  "storage_kwh a b c \<le> 0 \<Longrightarrow> optimization_function ds [a, b, c] = Inr sentinel"
  by (simp add: calc_all_infeasible)

lemma storage_kwh_out_of_bounds: "storage_kwh 0 0 36 \<le> 0"
  by (simp add: storage_kwh_def total_investment_value cost_smr_def)

lemma huge_demand_trace:
  assumes tr: "\<forall>h<HOURS_PER_YEAR. vs ! h =
      fst (spec_transition 8814600000 (level_before 4407300000 vs h) 76644 (10 ^ 30))"
  shows "snd (spec_transition 8814600000 (level_before 4407300000 vs 0) 76644 (10 ^ 30))
           = 10 ^ 30 - 76644 - 4407300000"
    "1 \<le> h \<Longrightarrow> h < HOURS_PER_YEAR \<Longrightarrow>
       snd (spec_transition 8814600000 (level_before 4407300000 vs h) 76644 (10 ^ 30)) = 10 ^ 30 - 76644"
proof -
  show "snd (spec_transition 8814600000 (level_before 4407300000 vs 0) 76644 (10 ^ 30))
           = 10 ^ 30 - 76644 - 4407300000"
    by (simp add: level_before_def spec_transition_def)
  from tr hours_gt_2 have "vs ! 0 = fst (spec_transition 8814600000 4407300000 76644 (10 ^ 30))"
    by (simp add: level_before_def)
  then have v0: "vs ! 0 = 0"
    by (simp add: spec_transition_def)
  show "snd (spec_transition 8814600000 (level_before 4407300000 vs h) 76644 (10 ^ 30)) = 10 ^ 30 - 76644"
    if "1 \<le> h" "h < HOURS_PER_YEAR"
  proof -
    from that have "0 \<le> h - 1" "h - 1 < HOURS_PER_YEAR" "h \<noteq> 0"
      by simp_all
    from flat_stays_empty [OF tr _ v0 this(1,2)] this(3) have "level_before 4407300000 vs h = 0"
      by (simp add: level_before_def)
    then show ?thesis
      by (simp add: spec_transition_def)
  qed
qed

subsection \<open>The generation model of the analysis script\<close>

lemma np_binop_same_length:
  "length xs = length ys \<Longrightarrow> np_binop f xs ys = Inr (map2 f xs ys)"
  by (simp add: np_binop_def)

lemma calculate_energy_production_run:
  assumes "HOURS_PER_YEAR \<le> length wind_pwr" "HOURS_PER_YEAR \<le> length irr"
  shows "\<exists>series wind solar. calculate_energy_production wind_pwr irr
             = Inr (series, wind, solar, nuclear_production, hydro_capacity_series)
           \<and> length series = HOURS_PER_YEAR \<and> length wind = HOURS_PER_YEAR \<and> length solar = HOURS_PER_YEAR"
proof -
  let ?wind = "map2 (*) (replicate HOURS_PER_YEAR wind_turbines) (take HOURS_PER_YEAR wind_pwr)"
  let ?sp = "map2 (*) (replicate HOURS_PER_YEAR solar_panels) (take HOURS_PER_YEAR irr)"
  let ?solar = "map (\<lambda>x. x * 0.55 * 2.8 * 0.197) ?sp"
  let ?ws = "map2 (+) ?wind ?solar"
  let ?wsn = "map2 (+) ?ws nuclear_production"
  let ?series = "map2 (+) ?wsn hydro_capacity_series"
  have 1: "np_binop (*) (replicate HOURS_PER_YEAR wind_turbines) (take HOURS_PER_YEAR wind_pwr) = Inr ?wind"
    using assms(1) by (intro np_binop_same_length) simp
  have 2: "np_binop (*) (replicate HOURS_PER_YEAR solar_panels) (take HOURS_PER_YEAR irr) = Inr ?sp"
    using assms(2) by (intro np_binop_same_length) simp
  have lw: "length ?wind = HOURS_PER_YEAR" and ls: "length ?solar = HOURS_PER_YEAR"
    using assms by simp_all
  have 3: "np_binop (+) ?wind ?solar = Inr ?ws"
    using lw ls by (intro np_binop_same_length) simp
  have lws: "length ?ws = HOURS_PER_YEAR"
    using lw ls by simp
  have 4: "np_binop (+) ?ws nuclear_production = Inr ?wsn"
    using lws by (intro np_binop_same_length) (simp add: nuclear_production_def)
  have lwsn: "length ?wsn = HOURS_PER_YEAR"
    using lws by (simp add: nuclear_production_def)
  have 5: "np_binop (+) ?wsn hydro_capacity_series = Inr ?series"
    using lwsn by (intro np_binop_same_length) (simp add: hydro_capacity_series_def)
  have lser: "length ?series = HOURS_PER_YEAR"
    using lwsn by (simp add: hydro_capacity_series_def)
  have "calculate_energy_production wind_pwr irr
          = Inr (?series, ?wind, ?solar, nuclear_production, hydro_capacity_series)"
    unfolding calculate_energy_production_def Let_def
    by (simp only: 1 2 3 4 5 bind_Inr)
  with lser lw ls show ?thesis
    by blast
qed

section \<open>The claims\<close>

subsection \<open>The normalizer\<close>

lemma ensure_8760_nonempty:
  assumes "data \<noteq> []"
  shows "ensure_8760 data =
           Inr (if length data > HOURS_PER_YEAR then take HOURS_PER_YEAR data
                else data @ replicate (HOURS_PER_YEAR - length data) (last data))"
  using assms by (simp add: ensure_8760_def np_pad_edge_def)

lemma ensure_8760_fixed:
  assumes "length data = HOURS_PER_YEAR"
  shows "ensure_8760 data = Inr data"
  using assms by (simp add: ensure_8760_def)

lemma ensure_8760_empty: "ensure_8760 [] = Inl ValueError"
  by (simp add: ensure_8760_def np_pad_edge_def HOURS_PER_YEAR_def)

lemma ensure_8760_length:
  assumes "ensure_8760 data = Inr out"
  shows "length out = HOURS_PER_YEAR"
proof (cases "data = []")
  case True
  with assms show ?thesis
    by (simp add: ensure_8760_empty)
next
  case False
  with assms show ?thesis
    by (auto simp: ensure_8760_nonempty split: if_splits)
qed

text \<open>
  The module-level series of \<^verbatim>\<open>optimization.py\<close> are outputs of the normalizer, so each
  has one sample per hour; the results on \<^verbatim>\<open>calc_all\<close> below take this as their
  hypothesis on the data. Non-empty raw series always load.
\<close>

lemma load_dataset_lengths:
  assumes "load_dataset raw_irradiation raw_demand raw_wind_speed raw_wind_power = Inr ds"
  shows "length (irradiation ds) = HOURS_PER_YEAR \<and> length (wind_speed ds) = HOURS_PER_YEAR
           \<and> length (wind_power ds) = HOURS_PER_YEAR \<and> length (hourly_demand ds) = HOURS_PER_YEAR"
  using assms
  by (auto simp: load_dataset_def bind_def ensure_8760_length split: sum.splits)

lemma load_dataset_nonempty:
  assumes "raw_irradiation \<noteq> []" "raw_demand \<noteq> []" "raw_wind_speed \<noteq> []" "raw_wind_power \<noteq> []"
  shows "\<exists>ds. load_dataset raw_irradiation raw_demand raw_wind_speed raw_wind_power = Inr ds"
  using assms by (simp add: load_dataset_def ensure_8760_nonempty)

text \<open>
  Claim C7. For every input series with at least one sample the normalizer returns a
  series of exactly 8760 samples: the first 8760 samples of a longer input, the input
  itself when it has 8760 samples, and a shorter input followed by copies of its last
  sample.
\<close>

theorem ensure_8760_shape:
  assumes "data \<noteq> []"
  shows "\<exists>out. ensure_8760 data = Inr out \<and> length out = 8760
           \<and> (length data > 8760 \<longrightarrow> out = take 8760 data)
           \<and> (length data = 8760 \<longrightarrow> out = data)
           \<and> (length data < 8760 \<longrightarrow> out = data @ replicate (8760 - length data) (last data))"
  using assms by (auto simp: ensure_8760_nonempty HOURS_PER_YEAR_def)

theorem ensure_8760_shape_witness:
  "[3, 1, 2::real] \<noteq> []
     \<and> (\<exists>out. ensure_8760 [3, 1, 2::real] = Inr out \<and> length out = 8760
           \<and> (length [3, 1, 2::real] > 8760 \<longrightarrow> out = take 8760 [3, 1, 2])
           \<and> (length [3, 1, 2::real] = 8760 \<longrightarrow> out = [3, 1, 2])
           \<and> (length [3, 1, 2::real] < 8760 \<longrightarrow>
                 out = [3, 1, 2] @ replicate (8760 - length [3, 1, 2::real]) (last [3, 1, 2])))"
  using ensure_8760_shape [of "[3, 1, 2::real]"] by simp

text \<open>
  Claim C8. Normalizing twice is normalizing once: for every non-empty series the
  normalizer succeeds, and applied to its own output it returns that output.
\<close>

theorem ensure_8760_idempotent:
  assumes "data \<noteq> []"
  shows "\<exists>out. ensure_8760 data = Inr out \<and> ensure_8760 out = Inr out"
proof -
  define out where "out = (if length data > HOURS_PER_YEAR then take HOURS_PER_YEAR data
                else data @ replicate (HOURS_PER_YEAR - length data) (last data))"
  have "ensure_8760 data = Inr out"
    using assms by (simp add: ensure_8760_nonempty out_def)
  moreover have "length out = HOURS_PER_YEAR"
    by (simp add: out_def)
  then have "ensure_8760 out = Inr out"
    by (rule ensure_8760_fixed)
  ultimately show ?thesis by blast
qed

theorem ensure_8760_idempotent_witness:
  "[3, 1, 2::real] \<noteq> []
     \<and> (\<exists>out. ensure_8760 [3, 1, 2::real] = Inr out \<and> ensure_8760 out = Inr out)"
  using ensure_8760_idempotent [of "[3, 1, 2::real]"] by simp

subsection \<open>The balance simulation\<close>

text \<open>
  Claim C2. The hours are processed in increasing order, and each hour takes the previous
  storage level \<open>s\<close> to the level and the backup energy the transition rule prescribes:
  with \<open>net = production - demand\<close>, a surplus gives \<open>min (s + net * 0.85) capacity\<close> and no
  backup (the factor 0.85 applies on charge only); a deficit \<open>d = - net\<close> gives \<open>s - d\<close> and
  no backup when \<open>s \<ge> d\<close>, and level 0 with backup \<open>d - s\<close> otherwise. In \<^verbatim>\<open>calc_all\<close>
  the production of hour \<open>h\<close> is the sum of the four components of the mix, returned as
  the third component of the result, and the backup energy of the hours is accumulated
  into one total; in \<^verbatim>\<open>simulate_energy_balance\<close> the production is the argument and the
  backup is recorded per hour.
\<close>

theorem hourly_transition:
  assumes "length (wind_power ds) = HOURS_PER_YEAR" "length (irradiation ds) = HOURS_PER_YEAR"
    and "length (hourly_demand ds) = HOURS_PER_YEAR" and "0 < storage_kwh Nmills Npanels NSMR"
    and "HOURS_PER_YEAR \<le> length production" "HOURS_PER_YEAR \<le> length demand"
  shows "(\<exists>gas_total levels.
            calc_all ds Nmills Npanels NSMR
              = Inr (gas_total, levels, Array (total_of ds Nmills Npanels NSMR))
            \<and> length levels = HOURS_PER_YEAR
            \<and> length (total_of ds Nmills Npanels NSMR) = HOURS_PER_YEAR
            \<and> (\<forall>h<HOURS_PER_YEAR. total_of ds Nmills Npanels NSMR ! h =
                  Nmills * (wind_power ds ! h)
                    + Npanels * (irradiation ds ! h / 1000) * 0.55 * 2.8 * 0.197
                    + NSMR * 50 * 1000 + hydro_capacity)
            \<and> (\<forall>h<HOURS_PER_YEAR. levels ! h =
                  fst (spec_transition (storage_kwh Nmills Npanels NSMR)
                         (level_before (storage_kwh Nmills Npanels NSMR * 0.5) levels h)
                         (total_of ds Nmills Npanels NSMR ! h) (hourly_demand ds ! h)))
            \<and> gas_total = (\<Sum>h<HOURS_PER_YEAR.
                  snd (spec_transition (storage_kwh Nmills Npanels NSMR)
                         (level_before (storage_kwh Nmills Npanels NSMR * 0.5) levels h)
                         (total_of ds Nmills Npanels NSMR ! h) (hourly_demand ds ! h))))
       \<and> (\<exists>gas levels. simulate_energy_balance production demand = Inr (gas, levels)
            \<and> length gas = HOURS_PER_YEAR \<and> length levels = HOURS_PER_YEAR
            \<and> (\<forall>h<HOURS_PER_YEAR. (levels ! h, gas ! h) =
                  spec_transition storage_capacity (level_before (storage_capacity * 0.5) levels h)
                    (production ! h) (demand ! h)))"
proof -
  from calc_all_run [OF assms(1-4)] obtain g vs
    where run: "calc_all ds Nmills Npanels NSMR = Inr (g, vs, Array (total_of ds Nmills Npanels NSMR))"
      and len: "length vs = HOURS_PER_YEAR"
      and tr: "\<forall>h<HOURS_PER_YEAR. vs ! h =
                  fst (spec_transition (storage_kwh Nmills Npanels NSMR)
                         (level_before (storage_kwh Nmills Npanels NSMR * 0.5) vs h)
                         (total_of ds Nmills Npanels NSMR ! h) (hourly_demand ds ! h))"
      and g: "g = (\<Sum>h<HOURS_PER_YEAR.
                  snd (spec_transition (storage_kwh Nmills Npanels NSMR)
                         (level_before (storage_kwh Nmills Npanels NSMR * 0.5) vs h)
                         (total_of ds Nmills Npanels NSMR ! h) (hourly_demand ds ! h)))"
    unfolding initial_storage_fraction_def by blast
  have lt: "length (total_of ds Nmills Npanels NSMR) = HOURS_PER_YEAR"
    using assms(1,2) by (rule length_total_of)
  have val: "\<forall>h<HOURS_PER_YEAR. total_of ds Nmills Npanels NSMR ! h =
                  Nmills * (wind_power ds ! h)
                    + Npanels * (irradiation ds ! h / 1000) * 0.55 * 2.8 * 0.197
                    + NSMR * 50 * 1000 + hydro_capacity"
    using total_of_nth [OF assms(1,2)] by blast
  from run len lt val tr g have first: "\<exists>gas_total levels.
            calc_all ds Nmills Npanels NSMR
              = Inr (gas_total, levels, Array (total_of ds Nmills Npanels NSMR))
            \<and> length levels = HOURS_PER_YEAR
            \<and> length (total_of ds Nmills Npanels NSMR) = HOURS_PER_YEAR
            \<and> (\<forall>h<HOURS_PER_YEAR. total_of ds Nmills Npanels NSMR ! h =
                  Nmills * (wind_power ds ! h)
                    + Npanels * (irradiation ds ! h / 1000) * 0.55 * 2.8 * 0.197
                    + NSMR * 50 * 1000 + hydro_capacity)
            \<and> (\<forall>h<HOURS_PER_YEAR. levels ! h =
                  fst (spec_transition (storage_kwh Nmills Npanels NSMR)
                         (level_before (storage_kwh Nmills Npanels NSMR * 0.5) levels h)
                         (total_of ds Nmills Npanels NSMR ! h) (hourly_demand ds ! h)))
            \<and> gas_total = (\<Sum>h<HOURS_PER_YEAR.
                  snd (spec_transition (storage_kwh Nmills Npanels NSMR)
                         (level_before (storage_kwh Nmills Npanels NSMR * 0.5) levels h)
                         (total_of ds Nmills Npanels NSMR ! h) (hourly_demand ds ! h)))"
    by blast
  from simulate_loop_run [OF assms(5,6), of storage_capacity "storage_capacity * 0.5"]
  have "\<exists>gas levels. simulate_energy_balance production demand = Inr (gas, levels)
            \<and> length gas = HOURS_PER_YEAR \<and> length levels = HOURS_PER_YEAR
            \<and> (\<forall>h<HOURS_PER_YEAR. (levels ! h, gas ! h) =
                  spec_transition storage_capacity (level_before (storage_capacity * 0.5) levels h)
                    (production ! h) (demand ! h))"
    unfolding simulate_energy_balance_def by (metis prod.collapse)
  with first show ?thesis by blast
qed

theorem hourly_transition_witness:
  "length (wind_power (flat_dataset 0 0 0)) = HOURS_PER_YEAR
   \<and> length (irradiation (flat_dataset 0 0 0)) = HOURS_PER_YEAR
   \<and> length (hourly_demand (flat_dataset 0 0 0)) = HOURS_PER_YEAR
   \<and> 0 < storage_kwh 0 0 0
   \<and> HOURS_PER_YEAR \<le> length (replicate HOURS_PER_YEAR (500::real))
   \<and> HOURS_PER_YEAR \<le> length (replicate HOURS_PER_YEAR (900::real))
   \<and> (\<exists>gas_total levels.
            calc_all (flat_dataset 0 0 0) 0 0 0
              = Inr (gas_total, levels, Array (total_of (flat_dataset 0 0 0) 0 0 0))
            \<and> length levels = HOURS_PER_YEAR
            \<and> length (total_of (flat_dataset 0 0 0) 0 0 0) = HOURS_PER_YEAR
            \<and> (\<forall>h<HOURS_PER_YEAR. total_of (flat_dataset 0 0 0) 0 0 0 ! h =
                  0 * (wind_power (flat_dataset 0 0 0) ! h)
                    + 0 * (irradiation (flat_dataset 0 0 0) ! h / 1000) * 0.55 * 2.8 * 0.197
                    + 0 * 50 * 1000 + hydro_capacity)
            \<and> (\<forall>h<HOURS_PER_YEAR. levels ! h =
                  fst (spec_transition (storage_kwh 0 0 0)
                         (level_before (storage_kwh 0 0 0 * 0.5) levels h)
                         (total_of (flat_dataset 0 0 0) 0 0 0 ! h) (hourly_demand (flat_dataset 0 0 0) ! h)))
            \<and> gas_total = (\<Sum>h<HOURS_PER_YEAR.
                  snd (spec_transition (storage_kwh 0 0 0)
                         (level_before (storage_kwh 0 0 0 * 0.5) levels h)
                         (total_of (flat_dataset 0 0 0) 0 0 0 ! h) (hourly_demand (flat_dataset 0 0 0) ! h))))
   \<and> (\<exists>gas levels. simulate_energy_balance (replicate HOURS_PER_YEAR 500) (replicate HOURS_PER_YEAR 900)
                        = Inr (gas, levels)
            \<and> length gas = HOURS_PER_YEAR \<and> length levels = HOURS_PER_YEAR
            \<and> (\<forall>h<HOURS_PER_YEAR. (levels ! h, gas ! h) =
                  spec_transition storage_capacity (level_before (storage_capacity * 0.5) levels h)
                    (replicate HOURS_PER_YEAR 500 ! h) (replicate HOURS_PER_YEAR 900 ! h)))"
  using hourly_transition [OF witness_inputs] witness_inputs by blast

text \<open>
  Claim C3. In every run with a positive storage capacity, started at half the capacity,
  the level recorded after each of the 8760 hours lies between 0 and the capacity.
\<close>

theorem storage_level_bounds:
  assumes "length (wind_power ds) = HOURS_PER_YEAR" "length (irradiation ds) = HOURS_PER_YEAR"
    and "length (hourly_demand ds) = HOURS_PER_YEAR" and "0 < storage_kwh Nmills Npanels NSMR"
    and "HOURS_PER_YEAR \<le> length production" "HOURS_PER_YEAR \<le> length demand"
  shows "(\<exists>gas_total levels series. calc_all ds Nmills Npanels NSMR = Inr (gas_total, levels, series)
            \<and> length levels = 8760
            \<and> (\<forall>h<8760. 0 \<le> levels ! h \<and> levels ! h \<le> storage_kwh Nmills Npanels NSMR))
       \<and> (\<exists>gas levels. simulate_energy_balance production demand = Inr (gas, levels)
            \<and> length levels = 8760 \<and> 0 < storage_capacity
            \<and> (\<forall>h<8760. 0 \<le> levels ! h \<and> levels ! h \<le> storage_capacity))"
proof -
  let ?cap = "storage_kwh Nmills Npanels NSMR"
  from calc_all_run [OF assms(1-4)] obtain g vs
    where run: "calc_all ds Nmills Npanels NSMR = Inr (g, vs, Array (total_of ds Nmills Npanels NSMR))"
      and len: "length vs = HOURS_PER_YEAR"
      and tr: "\<forall>h<HOURS_PER_YEAR. vs ! h =
                 fst (spec_transition ?cap (level_before (?cap * initial_storage_fraction) vs h)
                        (total_of ds Nmills Npanels NSMR ! h) (hourly_demand ds ! h))"
    by blast
  have s0: "0 \<le> ?cap * initial_storage_fraction" "?cap * initial_storage_fraction \<le> ?cap"
    using assms(4) by (simp_all add: initial_storage_fraction_def)
  have "\<forall>h<HOURS_PER_YEAR. 0 \<le> vs ! h \<and> vs ! h \<le> ?cap"
    using trace_bounds [OF tr s0] by blast
  with run len have first: "\<exists>gas_total levels series. calc_all ds Nmills Npanels NSMR = Inr (gas_total, levels, series)
            \<and> length levels = 8760 \<and> (\<forall>h<8760. 0 \<le> levels ! h \<and> levels ! h \<le> ?cap)"
    unfolding HOURS_PER_YEAR_def by blast
  from simulate_loop_run [OF assms(5,6), of storage_capacity "storage_capacity * 0.5"] obtain gas ls
    where run2: "simulate_energy_balance production demand = Inr (gas, ls)"
      and len2: "length ls = HOURS_PER_YEAR"
      and tr2: "\<forall>h<HOURS_PER_YEAR. ls ! h =
                 fst (spec_transition storage_capacity (level_before (storage_capacity * 0.5) ls h)
                        (production ! h) (demand ! h))"
    unfolding simulate_energy_balance_def by blast
  have pos: "0 < storage_capacity"
    by (simp add: storage_capacity_value)
  then have s1: "0 \<le> storage_capacity * 0.5" "storage_capacity * 0.5 \<le> storage_capacity"
    by simp_all
  have "\<forall>h<HOURS_PER_YEAR. 0 \<le> ls ! h \<and> ls ! h \<le> storage_capacity"
    using trace_bounds [OF tr2 s1] by blast
  with run2 len2 pos have "\<exists>gas levels. simulate_energy_balance production demand = Inr (gas, levels)
            \<and> length levels = 8760 \<and> 0 < storage_capacity
            \<and> (\<forall>h<8760. 0 \<le> levels ! h \<and> levels ! h \<le> storage_capacity)"
    unfolding HOURS_PER_YEAR_def by blast
  with first show ?thesis by blast
qed

theorem storage_level_bounds_witness:
  "length (wind_power (flat_dataset 0 0 0)) = HOURS_PER_YEAR
   \<and> length (irradiation (flat_dataset 0 0 0)) = HOURS_PER_YEAR
   \<and> length (hourly_demand (flat_dataset 0 0 0)) = HOURS_PER_YEAR
   \<and> 0 < storage_kwh 0 0 0
   \<and> HOURS_PER_YEAR \<le> length (replicate HOURS_PER_YEAR (500::real))
   \<and> HOURS_PER_YEAR \<le> length (replicate HOURS_PER_YEAR (900::real))
   \<and> (\<exists>gas_total levels series. calc_all (flat_dataset 0 0 0) 0 0 0 = Inr (gas_total, levels, series)
            \<and> length levels = 8760
            \<and> (\<forall>h<8760. 0 \<le> levels ! h \<and> levels ! h \<le> storage_kwh 0 0 0))
   \<and> (\<exists>gas levels. simulate_energy_balance (replicate HOURS_PER_YEAR 500) (replicate HOURS_PER_YEAR 900)
                       = Inr (gas, levels)
            \<and> length levels = 8760 \<and> 0 < storage_capacity
            \<and> (\<forall>h<8760. 0 \<le> levels ! h \<and> levels ! h \<le> storage_capacity))"
  using storage_level_bounds [OF witness_inputs] witness_inputs by blast

text \<open>
  Claim C4. The backup energy of an hour is never negative, and it is positive only in an
  hour that leaves the storage empty. \<^verbatim>\<open>simulate_energy_balance\<close> records the backup per
  hour; \<^verbatim>\<open>calc_all\<close> adds it to a running total, which therefore never decreases, grows
  only in an hour that leaves the storage empty, and ends non-negative.
\<close>

theorem backup_nonnegative:
  assumes "length (wind_power ds) = HOURS_PER_YEAR" "length (irradiation ds) = HOURS_PER_YEAR"
    and "length (hourly_demand ds) = HOURS_PER_YEAR" and "0 < storage_kwh Nmills Npanels NSMR"
    and "HOURS_PER_YEAR \<le> length production" "HOURS_PER_YEAR \<le> length demand"
  shows "(\<exists>gas levels. simulate_energy_balance production demand = Inr (gas, levels)
            \<and> length gas = 8760 \<and> length levels = 8760
            \<and> (\<forall>h<8760. 0 \<le> gas ! h \<and> (0 < gas ! h \<longrightarrow> levels ! h = 0)))
       \<and> (\<exists>gas_total levels series. calc_all ds Nmills Npanels NSMR = Inr (gas_total, levels, series)
            \<and> 0 \<le> gas_total)
       \<and> (\<forall>cap series d h storage g vals storage' g' vals'.
            calc_all_hour cap series d h (storage, g, vals) = Inr (storage', g', vals')
              \<longrightarrow> g \<le> g' \<and> (g < g' \<longrightarrow> storage' = 0))"
proof -
  from simulate_loop_run [OF assms(5,6), of storage_capacity "storage_capacity * 0.5"] obtain gas ls
    where run: "simulate_energy_balance production demand = Inr (gas, ls)"
      and len: "length gas = HOURS_PER_YEAR" "length ls = HOURS_PER_YEAR"
      and tr: "\<forall>h<HOURS_PER_YEAR. ls ! h =
                 fst (spec_transition storage_capacity (level_before (storage_capacity * 0.5) ls h)
                        (production ! h) (demand ! h))"
      and gs: "\<forall>h<HOURS_PER_YEAR. gas ! h =
                 snd (spec_transition storage_capacity (level_before (storage_capacity * 0.5) ls h)
                        (production ! h) (demand ! h))"
    unfolding simulate_energy_balance_def by blast
  have "0 \<le> gas ! h \<and> (0 < gas ! h \<longrightarrow> ls ! h = 0)" if "h < HOURS_PER_YEAR" for h
    using that tr gs spec_transition_backup by simp
  with run len have first: "\<exists>gas levels. simulate_energy_balance production demand = Inr (gas, levels)
            \<and> length gas = 8760 \<and> length levels = 8760
            \<and> (\<forall>h<8760. 0 \<le> gas ! h \<and> (0 < gas ! h \<longrightarrow> levels ! h = 0))"
    unfolding HOURS_PER_YEAR_def by blast
  from calc_all_run [OF assms(1-4)] sum_backup_nonneg
  have second: "\<exists>gas_total levels series. calc_all ds Nmills Npanels NSMR = Inr (gas_total, levels, series)
            \<and> 0 \<le> gas_total"
    by force
  from first second calc_all_hour_gas show ?thesis
    by blast
qed

theorem backup_nonnegative_witness:
  "length (wind_power (flat_dataset 0 0 0)) = HOURS_PER_YEAR
   \<and> length (irradiation (flat_dataset 0 0 0)) = HOURS_PER_YEAR
   \<and> length (hourly_demand (flat_dataset 0 0 0)) = HOURS_PER_YEAR
   \<and> 0 < storage_kwh 0 0 0
   \<and> HOURS_PER_YEAR \<le> length (replicate HOURS_PER_YEAR (500::real))
   \<and> HOURS_PER_YEAR \<le> length (replicate HOURS_PER_YEAR (900::real))
   \<and> (\<exists>gas levels. simulate_energy_balance (replicate HOURS_PER_YEAR 500) (replicate HOURS_PER_YEAR 900)
                       = Inr (gas, levels)
            \<and> length gas = 8760 \<and> length levels = 8760
            \<and> (\<forall>h<8760. 0 \<le> gas ! h \<and> (0 < gas ! h \<longrightarrow> levels ! h = 0)))
   \<and> (\<exists>gas_total levels series. calc_all (flat_dataset 0 0 0) 0 0 0 = Inr (gas_total, levels, series)
            \<and> 0 \<le> gas_total)
   \<and> calc_all_hour 1000 (Array [500]) [900] 0 (100, 0, [100]) = Inr (0, 300, [100, 0])
   \<and> (0::real) \<le> 300"
proof -
  have step: "calc_all_hour 1000 (Array [500]) [900] 0 (100, 0, [100]) = Inr (0, 300, [100, 0])"
    by (simp add: calc_all_hour_def getitem_def)
  from backup_nonnegative [OF witness_inputs] witness_inputs step show ?thesis
    by blast
qed

text \<open>
  Claim C10. \<^verbatim>\<open>calc_all\<close> returns a triple. When the derived storage capacity is positive
  its storage trace has exactly 8760 entries; otherwise the triple is the sentinel
  \<open>10 ^ 30\<close> with an empty trace and an empty production series.
\<close>

theorem calc_all_return_shape:
  assumes "length (wind_power ds) = HOURS_PER_YEAR" "length (irradiation ds) = HOURS_PER_YEAR"
    and "length (hourly_demand ds) = HOURS_PER_YEAR"
  shows "(0 < storage_kwh Nmills Npanels NSMR \<longrightarrow>
            (\<exists>gas_total levels series. calc_all ds Nmills Npanels NSMR = Inr (gas_total, levels, series)
               \<and> length levels = 8760))
       \<and> (storage_kwh Nmills Npanels NSMR \<le> 0 \<longrightarrow>
            calc_all ds Nmills Npanels NSMR = Inr (10 ^ 30, [], Array []))"
proof (intro conjI impI)
  assume "0 < storage_kwh Nmills Npanels NSMR"
  from calc_all_run [OF assms this]
  show "\<exists>gas_total levels series. calc_all ds Nmills Npanels NSMR = Inr (gas_total, levels, series)
               \<and> length levels = 8760"
    unfolding HOURS_PER_YEAR_def by blast
next
  assume "storage_kwh Nmills Npanels NSMR \<le> 0"
  then show "calc_all ds Nmills Npanels NSMR = Inr (10 ^ 30, [], Array [])"
    by (simp add: calc_all_infeasible sentinel_def)
qed

theorem calc_all_return_shape_witness:
  "length (wind_power (flat_dataset 0 0 0)) = HOURS_PER_YEAR
   \<and> length (irradiation (flat_dataset 0 0 0)) = HOURS_PER_YEAR
   \<and> length (hourly_demand (flat_dataset 0 0 0)) = HOURS_PER_YEAR
   \<and> 0 < storage_kwh 0 0 0 \<and> storage_kwh 0 0 36 \<le> 0
   \<and> (\<exists>gas_total levels series. calc_all (flat_dataset 0 0 0) 0 0 0 = Inr (gas_total, levels, series)
               \<and> length levels = 8760)
   \<and> calc_all (flat_dataset 0 0 0) 0 0 36 = Inr (10 ^ 30, [], Array [])"
proof -
  have neg: "storage_kwh 0 0 36 \<le> 0"
    by (simp add: storage_kwh_def total_investment_value cost_smr_def)
  from calc_all_return_shape [OF witness_inputs(1-3), of 0 0 0]
    calc_all_return_shape [OF witness_inputs(1-3), of 0 0 36] witness_inputs neg
  show ?thesis by blast
qed

text \<open>
  Claim C9. Production flat at 500, demand flat at 900, capacity 1000, initial level 500:
  hour 0 leaves level 100 without backup, hour 1 leaves level 0 with backup 300, and every
  hour from hour 2 on has backup 400 at level 0. The loops of both scripts are run with
  this capacity and initial level; the total of \<^verbatim>\<open>calc_all\<close> is \<open>300 + 8758 * 400\<close>.
\<close>

theorem deficit_scenario:
  "(\<exists>storage gas_total levels.
      calc_all_loop 1000 500 (Array (replicate HOURS_PER_YEAR 500)) (replicate HOURS_PER_YEAR 900)
        = Inr (storage, gas_total, levels)
      \<and> levels ! 0 = 100 \<and> levels ! 1 = 0
      \<and> (\<forall>h. 2 \<le> h \<and> h < 8760 \<longrightarrow> levels ! h = 0)
      \<and> gas_total = 300 + 8758 * 400)
   \<and> (\<exists>gas levels.
      simulate_loop 1000 500 (replicate HOURS_PER_YEAR 500) (replicate HOURS_PER_YEAR 900) = Inr (gas, levels)
      \<and> levels ! 0 = 100 \<and> gas ! 0 = 0
      \<and> levels ! 1 = 0 \<and> gas ! 1 = 300
      \<and> (\<forall>h. 2 \<le> h \<and> h < 8760 \<longrightarrow> gas ! h = 400 \<and> levels ! h = 0))"
proof -
  let ?p = "replicate HOURS_PER_YEAR (500::real)" and ?d = "replicate HOURS_PER_YEAR (900::real)"
  have len: "HOURS_PER_YEAR \<le> length ?p" "HOURS_PER_YEAR \<le> length ?d"
    by simp_all
  from calc_all_loop_run [OF len, of 1000 500] obtain s g vs
    where run: "calc_all_loop 1000 500 (Array ?p) ?d = Inr (s, g, vs)"
      and tr0: "\<forall>h<HOURS_PER_YEAR. vs ! h = fst (spec_transition 1000 (level_before 500 vs h) (?p ! h) (?d ! h))"
      and g0: "g = (\<Sum>h<HOURS_PER_YEAR. snd (spec_transition 1000 (level_before 500 vs h) (?p ! h) (?d ! h)))"
    by blast
  from tr0 have tr: "\<forall>h<HOURS_PER_YEAR. vs ! h = fst (spec_transition 1000 (level_before 500 vs h) 500 900)"
    by simp
  from g0 have g1: "g = (\<Sum>h<HOURS_PER_YEAR. snd (spec_transition 1000 (level_before 500 vs h) 500 900))"
    by simp
  have "g = (\<Sum>h<2. snd (spec_transition 1000 (level_before 500 vs h) 500 900))
              + of_nat (HOURS_PER_YEAR - 2) * 400"
    unfolding g1 using hours_gt_2 deficit_scenario_backup(3) [OF tr]
    by (intro sum_flat_tail) simp_all
  also have "(\<Sum>h<2. snd (spec_transition 1000 (level_before 500 vs h) 500 900)) = 300"
    using deficit_scenario_backup(1,2) [OF tr] by (simp add: numeral_2_eq_2)
  finally have g: "g = 300 + 8758 * 400"
    by (simp add: HOURS_PER_YEAR_def)
  have first: "\<exists>storage gas_total levels.
      calc_all_loop 1000 500 (Array ?p) ?d = Inr (storage, gas_total, levels)
      \<and> levels ! 0 = 100 \<and> levels ! 1 = 0
      \<and> (\<forall>h. 2 \<le> h \<and> h < 8760 \<longrightarrow> levels ! h = 0)
      \<and> gas_total = 300 + 8758 * 400"
    using run g deficit_scenario_trace [OF tr] unfolding HOURS_PER_YEAR_def by auto
  from simulate_loop_run [OF len, of 1000 500] obtain gas ls
    where run2: "simulate_loop 1000 500 ?p ?d = Inr (gas, ls)"
      and tr2: "\<forall>h<HOURS_PER_YEAR. ls ! h = fst (spec_transition 1000 (level_before 500 ls h) (?p ! h) (?d ! h))"
      and gs2: "\<forall>h<HOURS_PER_YEAR. gas ! h = snd (spec_transition 1000 (level_before 500 ls h) (?p ! h) (?d ! h))"
    by blast
  from tr2 have tr': "\<forall>h<HOURS_PER_YEAR. ls ! h = fst (spec_transition 1000 (level_before 500 ls h) 500 900)"
    by simp
  from gs2 have gs: "\<forall>h<HOURS_PER_YEAR. gas ! h = snd (spec_transition 1000 (level_before 500 ls h) 500 900)"
    by simp
  have "gas ! 0 = 0" "gas ! 1 = 300"
    using gs hours_gt_2 deficit_scenario_backup(1,2) [OF tr'] by simp_all
  moreover have "gas ! h = 400 \<and> ls ! h = 0" if "2 \<le> h \<and> h < 8760" for h
    using that gs deficit_scenario_backup(3) [OF tr', of h] deficit_scenario_trace(3) [OF tr', of h]
    by (simp add: HOURS_PER_YEAR_def)
  ultimately have "\<exists>gas levels.
      simulate_loop 1000 500 ?p ?d = Inr (gas, levels)
      \<and> levels ! 0 = 100 \<and> gas ! 0 = 0
      \<and> levels ! 1 = 0 \<and> gas ! 1 = 300
      \<and> (\<forall>h. 2 \<le> h \<and> h < 8760 \<longrightarrow> gas ! h = 400 \<and> levels ! h = 0)"
    using run2 deficit_scenario_trace(1,2) [OF tr'] by blast
  with first show ?thesis by blast
qed

theorem deficit_scenario_witness:
  "(\<exists>storage gas_total levels.
      calc_all_loop 1000 500 (Array (replicate HOURS_PER_YEAR 500)) (replicate HOURS_PER_YEAR 900)
        = Inr (storage, gas_total, levels)
      \<and> levels ! 2 = 0)
   \<and> (\<exists>gas levels.
      simulate_loop 1000 500 (replicate HOURS_PER_YEAR 500) (replicate HOURS_PER_YEAR 900) = Inr (gas, levels)
      \<and> gas ! 2 = 400 \<and> levels ! 2 = 0)"
proof -
  have h: "(2::nat) \<le> 2 \<and> (2::nat) < 8760"
    by simp
  from deficit_scenario h show ?thesis
    by blast
qed

subsection \<open>The objective and its sentinel\<close>

text \<open>
  Claim C5, as stated, asks that the sentinel \<open>10 ^ 30\<close> exceed the objective of every
  feasible mix within the bounds. The objective is the year's backup energy, which grows
  with the demand series: with a demand of \<open>10 ^ 30\<close> in every hour the feasible mix
  \<open>(0, 0, 0)\<close> has an objective above the sentinel.
\<close>

theorem sentinel_counterexample:
  "in_bounds [0, 0, 0] \<and> 0 < storage_kwh 0 0 0
   \<and> optimization_function (flat_dataset 0 0 (10 ^ 30)) [0, 0, 0]
       = Inr (8760 * (10 ^ 30 - 76644) - 4407300000)
   \<and> (10::real) ^ 30 < 8760 * (10 ^ 30 - 76644) - 4407300000"
proof -
  let ?ds = "flat_dataset 0 0 (10 ^ 30)"
  have len: "length (wind_power ?ds) = HOURS_PER_YEAR" "length (irradiation ?ds) = HOURS_PER_YEAR"
    "length (hourly_demand ?ds) = HOURS_PER_YEAR"
    by simp_all
  have cap: "0 < storage_kwh 0 0 0"
    by (simp add: storage_kwh_zero)
  from calc_all_run [OF len cap] obtain g vs
    where run: "calc_all ?ds 0 0 0 = Inr (g, vs, Array (total_of ?ds 0 0 0))"
      and tr0: "\<forall>h<HOURS_PER_YEAR. vs ! h =
                 fst (spec_transition (storage_kwh 0 0 0)
                        (level_before (storage_kwh 0 0 0 * initial_storage_fraction) vs h)
                        (total_of ?ds 0 0 0 ! h) (hourly_demand ?ds ! h))"
      and g0: "g = (\<Sum>h<HOURS_PER_YEAR.
                 snd (spec_transition (storage_kwh 0 0 0)
                        (level_before (storage_kwh 0 0 0 * initial_storage_fraction) vs h)
                        (total_of ?ds 0 0 0 ! h) (hourly_demand ?ds ! h)))"
    by blast
  have tp: "total_of (flat_dataset 0 0 d) 0 0 0 ! h = 76644" if "h < HOURS_PER_YEAR" for h d
    using that by (simp add: total_of_nth hydro_capacity_value)
  have s0: "8814600000 * initial_storage_fraction = 4407300000"
    by (simp add: initial_storage_fraction_def)
  from tr0 have tr: "\<forall>h<HOURS_PER_YEAR. vs ! h =
      fst (spec_transition 8814600000 (level_before 4407300000 vs h) 76644 (10 ^ 30))"
    unfolding storage_kwh_zero s0 by (simp add: tp)
  from g0 have g1: "g = (\<Sum>h<HOURS_PER_YEAR.
      snd (spec_transition 8814600000 (level_before 4407300000 vs h) 76644 (10 ^ 30)))"
    unfolding storage_kwh_zero s0 by (simp add: tp)
  have "g = (\<Sum>h<1. snd (spec_transition 8814600000 (level_before 4407300000 vs h) 76644 (10 ^ 30)))
              + of_nat (HOURS_PER_YEAR - 1) * (10 ^ 30 - 76644)"
    unfolding g1 using hours_gt_2 huge_demand_trace(2) [OF tr]
    by (intro sum_flat_tail) simp_all
  also have "(\<Sum>h<1. snd (spec_transition 8814600000 (level_before 4407300000 vs h) 76644 (10 ^ 30)))
               = 10 ^ 30 - 76644 - 4407300000"
    using huge_demand_trace(1) [OF tr] by simp
  finally have "g = 8760 * (10 ^ 30 - 76644) - 4407300000"
    by (simp add: HOURS_PER_YEAR_def)
  with run have "optimization_function ?ds [0, 0, 0] = Inr (8760 * (10 ^ 30 - 76644) - 4407300000)"
    by simp
  moreover have "in_bounds [0, 0, 0]"
    by (simp add: in_bounds_def bounds_value)
  moreover have "(10::real) ^ 30 < 8760 * (10 ^ 30 - 76644) - 4407300000"
    by simp
  ultimately show ?thesis
    using cap by blast
qed

text \<open>
  Claim C5, amended. For every mix whose derived storage capacity is not positive, on any
  data, the objective is the sentinel \<open>10 ^ 30\<close> and \<^verbatim>\<open>calc_all\<close> returns it with empty
  traces, no hour being simulated. The sentinel is strictly greater than the objective of
  every feasible mix within the search bounds provided the normalized wind-output and
  irradiance curves are non-negative and the year's demand, summed over the hours where it
  is positive, is below \<open>10 ^ 30\<close>.
\<close>

theorem sentinel_exceeds_feasible:
  "(storage_kwh Nmills Npanels NSMR \<le> 0 \<longrightarrow>
      optimization_function ds [Nmills, Npanels, NSMR] = Inr (10 ^ 30)
      \<and> calc_all ds Nmills Npanels NSMR = Inr (10 ^ 30, [], Array []))
   \<and> (length (wind_power ds) = HOURS_PER_YEAR \<and> length (irradiation ds) = HOURS_PER_YEAR
        \<and> length (hourly_demand ds) = HOURS_PER_YEAR
        \<and> list_all (\<lambda>x. 0 \<le> x) (wind_power ds) \<and> list_all (\<lambda>x. 0 \<le> x) (irradiation ds)
        \<and> sum_list (map (max 0) (hourly_demand ds)) < 10 ^ 30
        \<and> in_bounds [Nmills, Npanels, NSMR] \<and> 0 < storage_kwh Nmills Npanels NSMR \<longrightarrow>
      (\<exists>v. optimization_function ds [Nmills, Npanels, NSMR] = Inr v \<and> v < 10 ^ 30))"
proof (intro conjI impI)
  assume "storage_kwh Nmills Npanels NSMR \<le> 0"
  then show "optimization_function ds [Nmills, Npanels, NSMR] = Inr (10 ^ 30)"
    "calc_all ds Nmills Npanels NSMR = Inr (10 ^ 30, [], Array [])"
    using optimization_function_infeasible [of Nmills Npanels NSMR ds]
      calc_all_infeasible [of Nmills Npanels NSMR ds]
    by (simp_all add: sentinel_def)
next
  assume hyp: "length (wind_power ds) = HOURS_PER_YEAR \<and> length (irradiation ds) = HOURS_PER_YEAR
        \<and> length (hourly_demand ds) = HOURS_PER_YEAR
        \<and> list_all (\<lambda>x. 0 \<le> x) (wind_power ds) \<and> list_all (\<lambda>x. 0 \<le> x) (irradiation ds)
        \<and> sum_list (map (max 0) (hourly_demand ds)) < 10 ^ 30
        \<and> in_bounds [Nmills, Npanels, NSMR] \<and> 0 < storage_kwh Nmills Npanels NSMR"
  then have len: "length (wind_power ds) = HOURS_PER_YEAR" "length (irradiation ds) = HOURS_PER_YEAR"
      "length (hourly_demand ds) = HOURS_PER_YEAR"
    and nonneg: "\<forall>x\<in>set (wind_power ds). 0 \<le> x" "\<forall>x\<in>set (irradiation ds). 0 \<le> x"
    and dem: "sum_list (map (max 0) (hourly_demand ds)) < 10 ^ 30"
    and bnd: "in_bounds [Nmills, Npanels, NSMR]" and cap: "0 < storage_kwh Nmills Npanels NSMR"
    by (simp_all add: list_all_iff)
  from in_bounds_nonneg [OF bnd] have mix: "0 \<le> Nmills" "0 \<le> Npanels" "0 \<le> NSMR"
    by simp_all
  from gas_below_demand [OF len nonneg mix cap] obtain g vs tp
    where run: "calc_all ds Nmills Npanels NSMR = Inr (g, vs, tp)"
      and le: "g \<le> sum_list (map (max 0) (hourly_demand ds))"
    by blast
  from run have "optimization_function ds [Nmills, Npanels, NSMR] = Inr g"
    by simp
  moreover from le dem have "g < 10 ^ 30"
    by (rule le_less_trans)
  ultimately show "\<exists>v. optimization_function ds [Nmills, Npanels, NSMR] = Inr v \<and> v < 10 ^ 30"
    by blast
qed

theorem sentinel_exceeds_feasible_witness:
  "storage_kwh 0 0 36 \<le> 0
   \<and> optimization_function (flat_dataset 0 0 (10 ^ 30)) [0, 0, 36] = Inr (10 ^ 30)
   \<and> calc_all (flat_dataset 0 0 (10 ^ 30)) 0 0 36 = Inr (10 ^ 30, [], Array [])
   \<and> length (wind_power (flat_dataset 0 0 0)) = HOURS_PER_YEAR
   \<and> length (irradiation (flat_dataset 0 0 0)) = HOURS_PER_YEAR
   \<and> length (hourly_demand (flat_dataset 0 0 0)) = HOURS_PER_YEAR
   \<and> list_all (\<lambda>x. 0 \<le> x) (wind_power (flat_dataset 0 0 0))
   \<and> list_all (\<lambda>x. 0 \<le> x) (irradiation (flat_dataset 0 0 0))
   \<and> sum_list (map (max 0) (hourly_demand (flat_dataset 0 0 0))) < 10 ^ 30
   \<and> in_bounds [0, 0, 0] \<and> 0 < storage_kwh 0 0 0
   \<and> (\<exists>v. optimization_function (flat_dataset 0 0 0) [0, 0, 0] = Inr v \<and> v < 10 ^ 30)"
proof -
  have d: "list_all (\<lambda>x. 0 \<le> x) (wind_power (flat_dataset 0 0 0))"
    "list_all (\<lambda>x. 0 \<le> x) (irradiation (flat_dataset 0 0 0))"
    "sum_list (map (max 0) (hourly_demand (flat_dataset 0 0 0))) < 10 ^ 30"
    by (simp_all add: sum_list_replicate list_all_iff)
  have b: "in_bounds [0, 0, 0]"
    by (simp add: in_bounds_def bounds_value)
  from sentinel_exceeds_feasible [of 0 0 36 "flat_dataset 0 0 (10 ^ 30)"]
    sentinel_exceeds_feasible [of 0 0 0 "flat_dataset 0 0 0"]
    witness_inputs(1-4) d b storage_kwh_out_of_bounds
  show ?thesis by blast
qed

subsection \<open>The four production components\<close>

text \<open>
  Claim C6, as stated, asks for four series of length 8760. In \<^verbatim>\<open>calc_energy_production\<close>
  the nuclear component is the number \<open>NSMR * 50 * 1000\<close>: it has no length.
\<close>

theorem nuclear_not_a_series:
  "np_len (fst (snd (snd (calc_energy_production (flat_dataset 1 1 1) 1 1 1)))) = Inl TypeError
   \<and> np_len (fst (snd (snd (calc_energy_production (flat_dataset 1 1 1) 1 1 1)))) \<noteq> Inr 8760"
  by (simp add: calc_energy_production_def Let_def)

text \<open>
  Claim C6, amended. For normalized curves, \<^verbatim>\<open>calc_energy_production\<close> returns wind, solar
  and hydro as series of length 8760 and nuclear as the single number
  \<open>NSMR * 50 * 1000\<close>, the same for every hour; the hydro series is the constant 76644,
  whatever the mix. \<^verbatim>\<open>calculate_energy_production\<close> of the analysis script returns series
  of length 8760 throughout, its nuclear series being 244382.352845001 and its hydro series
  76644 in every hour.
\<close>

theorem generation_series:
  assumes "length (wind_power ds) = HOURS_PER_YEAR" "length (irradiation ds) = HOURS_PER_YEAR"
    and "HOURS_PER_YEAR \<le> length wind_pwr" "HOURS_PER_YEAR \<le> length irr"
  shows "(\<exists>wind solar hydro.
            calc_energy_production ds Nmills Npanels NSMR
              = (Array wind, Array solar, Scalar (NSMR * 50 * 1000), Array hydro)
            \<and> length wind = 8760 \<and> length solar = 8760 \<and> length hydro = 8760
            \<and> (\<forall>h<8760. hydro ! h = 76644))
       \<and> (\<exists>series wind solar nuclear hydro.
            calculate_energy_production wind_pwr irr = Inr (series, wind, solar, nuclear, hydro)
            \<and> length series = 8760 \<and> length wind = 8760 \<and> length solar = 8760
            \<and> length nuclear = 8760 \<and> length hydro = 8760
            \<and> (\<forall>h<8760. nuclear ! h = 244382.352845001 \<and> hydro ! h = 76644))"
proof -
  have "\<exists>wind solar hydro.
            calc_energy_production ds Nmills Npanels NSMR
              = (Array wind, Array solar, Scalar (NSMR * 50 * 1000), Array hydro)
            \<and> length wind = 8760 \<and> length solar = 8760 \<and> length hydro = 8760
            \<and> (\<forall>h<8760. hydro ! h = 76644)"
    using assms(1,2)
    by (simp add: calc_energy_production_def Let_def hydro_capacity_value HOURS_PER_YEAR_def)
  moreover from calculate_energy_production_run [OF assms(3,4)]
  have "\<exists>series wind solar nuclear hydro.
            calculate_energy_production wind_pwr irr = Inr (series, wind, solar, nuclear, hydro)
            \<and> length series = 8760 \<and> length wind = 8760 \<and> length solar = 8760
            \<and> length nuclear = 8760 \<and> length hydro = 8760
            \<and> (\<forall>h<8760. nuclear ! h = 244382.352845001 \<and> hydro ! h = 76644)"
    by (auto simp: nuclear_production_def hydro_capacity_series_def HOURS_PER_YEAR_def)
  ultimately show ?thesis
    by blast
qed

theorem generation_series_witness:
  "length (wind_power (flat_dataset 0 0 0)) = HOURS_PER_YEAR
   \<and> length (irradiation (flat_dataset 0 0 0)) = HOURS_PER_YEAR
   \<and> HOURS_PER_YEAR \<le> length (replicate HOURS_PER_YEAR (500::real))
   \<and> HOURS_PER_YEAR \<le> length (replicate HOURS_PER_YEAR (900::real))
   \<and> (\<exists>wind solar hydro.
            calc_energy_production (flat_dataset 0 0 0) 1 2 3
              = (Array wind, Array solar, Scalar (3 * 50 * 1000), Array hydro)
            \<and> length wind = 8760 \<and> length solar = 8760 \<and> length hydro = 8760
            \<and> (\<forall>h<8760. hydro ! h = 76644))
   \<and> (\<exists>series wind solar nuclear hydro.
            calculate_energy_production (replicate HOURS_PER_YEAR 500) (replicate HOURS_PER_YEAR 900)
              = Inr (series, wind, solar, nuclear, hydro)
            \<and> length series = 8760 \<and> length wind = 8760 \<and> length solar = 8760
            \<and> length nuclear = 8760 \<and> length hydro = 8760
            \<and> (\<forall>h<8760. nuclear ! h = 244382.352845001 \<and> hydro ! h = 76644))"
  using generation_series [OF witness_inputs(1,2,5,6), of 1 2 3] witness_inputs by blast

subsection \<open>The storage capacity derived from the budget\<close>

text \<open>
  Claim C1 asks for the residual budget divided by the storage cost per kWh.
  \<^verbatim>\<open>simulate_energy_balance\<close> divides (see \<open>storage_capacity\<close>); \<^verbatim>\<open>calc_all\<close> does not:
  for the mix \<open>(0, 0, 0)\<close> it takes the whole budget of 8814600000 as the capacity, where
  the division by \<open>cost_storage_kwh\<close> gives 88146000, and with production equal to demand
  the first recorded level is 4407300000.
\<close>

theorem storage_capacity_not_divided:
  "storage_kwh 0 0 0 = 8814600000
   \<and> (total_investment - (0 * cost_wind + 0 * cost_panels + 0 * cost_smr)) / cost_storage_kwh = 88146000
   \<and> (\<exists>gas_total levels series.
         calc_all (flat_dataset 0 0 76644) 0 0 0 = Inr (gas_total, levels, series)
         \<and> levels ! 0 = 4407300000)"
proof -
  let ?ds = "flat_dataset 0 0 76644"
  have len: "length (wind_power ?ds) = HOURS_PER_YEAR" "length (irradiation ?ds) = HOURS_PER_YEAR"
    "length (hourly_demand ?ds) = HOURS_PER_YEAR"
    by simp_all
  have cap: "0 < storage_kwh 0 0 0"
    by (simp add: storage_kwh_zero)
  from calc_all_run [OF len cap] obtain g vs
    where run: "calc_all ?ds 0 0 0 = Inr (g, vs, Array (total_of ?ds 0 0 0))"
      and tr: "\<forall>h<HOURS_PER_YEAR. vs ! h =
                 fst (spec_transition (storage_kwh 0 0 0)
                        (level_before (storage_kwh 0 0 0 * initial_storage_fraction) vs h)
                        (total_of ?ds 0 0 0 ! h) (hourly_demand ?ds ! h))"
    by blast
  have "0 < HOURS_PER_YEAR"
    by (simp add: HOURS_PER_YEAR_def)
  with tr have "vs ! 0 = fst (spec_transition (storage_kwh 0 0 0)
                        (level_before (storage_kwh 0 0 0 * initial_storage_fraction) vs 0)
                        (total_of ?ds 0 0 0 ! 0) (hourly_demand ?ds ! 0))"
    by blast
  also have "\<dots> = 4407300000"
    using \<open>0 < HOURS_PER_YEAR\<close>
    by (simp add: total_of_nth hydro_capacity_value storage_kwh_zero initial_storage_fraction_def
        level_before_def spec_transition_def)
  finally have "vs ! 0 = 4407300000" .
  moreover have "(total_investment - (0 * cost_wind + 0 * cost_panels + 0 * cost_smr)) / cost_storage_kwh
      = 88146000"
    by (simp add: total_investment_value cost_storage_kwh_def)
  ultimately show ?thesis
    using run storage_kwh_zero by blast
qed

end
